theory Spec2Isabelle
  imports Complex_Main "HOL-Library.Multiset"
begin

section \<open>Data model\<close>

text \<open>
  The booking store of the cleaning-service platform, as the client library
  (\<^verbatim>\<open>src/unnamed/part_000\<close>), the cleaner dashboard
  (\<^verbatim>\<open>src/src/pages/CleanerDashboard.tsx\<close>) and the payment trigger
  (\<^verbatim>\<open>src/supabase/migrations/20250124210416_steep_unit.sql\<close>) use it.

  Row identifiers are the store's uuid strings. A timestamp is the number of milliseconds
  since the epoch, the value \<^verbatim>\<open>new Date(x).getTime()\<close> yields; a nullable column is an
  \<open>option\<close>. Money is a number of the exact field \<open>real\<close>: SQL \<^verbatim>\<open>numeric\<close> is
  exact, and the amounts \<^verbatim>\<open>createBooking\<close> stores are integers (\<^verbatim>\<open>parseInt\<close>), which
  JavaScript adds exactly. The hours statistic divides, so it is computed in the
  doubles of JavaScript, modelled below.

  The store is taken as one sequential state: an operation runs to its end before the
  next one starts. The row-level security policies of
  \<^verbatim>\<open>20250124201743_red_credit.sql\<close> are not part of the model; they are two of the
  policies of a schema whose other migrations are not among the sources, and policies of
  this kind add up.
\<close>

type_synonym uuid = string

datatype booking_status =
  Pending | Picked | In_progress | Paused | Completed | Payment_verified

record booking =
  id_booking :: uuid
  cleaner_id :: "uuid option"
  service_id :: uuid
  status :: booking_status
  scheduled_at :: int
  picked_at :: "int option"
  started_at :: "int option"
  paused_at :: "int option"
  total_pause_duration :: "int option"
  completed_at :: "int option"
  payment_collected_at :: "int option"
  payment_proof_url :: "string option"
  amount :: real
  is_deleted :: bool

text \<open>One element of a cleaner's \<^verbatim>\<open>earnings_history\<close> (the \<^verbatim>\<open>jsonb_build_object\<close> of the trigger).\<close>

record earnings_entry =
  booking_id :: uuid
  amount_entry :: real
  service :: "string option"
  earned_at :: int

record cleaner =
  id_cleaner :: uuid
  earnings_balance :: "real option"
  earnings_history :: "earnings_entry list option"

text \<open>A row of \<^verbatim>\<open>earnings_withdrawals\<close>, as \<^verbatim>\<open>requestWithdrawal\<close> inserts it.\<close>

record withdrawal =
  cleaner_id_withdrawal :: uuid
  amount_withdrawal :: real

record database =
  bookings :: "booking list"
  cleaners :: "cleaner list"
  services :: "uuid \<rightharpoonup> string"
  earnings_withdrawals :: "withdrawal list"

text \<open>
  What a call takes from outside the store: the auth session, the ids of the
  \<^verbatim>\<open>cleaners\<close> rows the caller may read (the unfiltered
  \<^verbatim>\<open>from('cleaners').select(..).single()\<close> returns the caller's profile only through
  that), the client clock, the server clock
  (\<^verbatim>\<open>CURRENT_TIMESTAMP\<close>), the public URL the blob store hands out, and the \<^verbatim>\<open>error\<close>
  fields of the store's replies (\<open>None\<close> when the request went through; a write that
  reports an error is not applied).
\<close>

record env =
  session :: "uuid option"
  visible_cleaner :: "uuid \<Rightarrow> bool"
  now :: int
  current_timestamp :: int
  public_url :: string
  store_error :: "string option"
  upload_error :: "string option"
  update_error :: "string option"

datatype error =
  Not_authenticated
  | Cleaner_profile_not_found
  | Insufficient_balance
  | Job_not_paused
  | Store_error string

section \<open>Store primitives\<close>

text \<open>\<^verbatim>\<open>.single()\<close>: the row when exactly one row is returned, otherwise no data.\<close>

fun single :: "'a list \<Rightarrow> 'a option" where
  "single [x] = Some x"
| "single _ = None"

text \<open>
  \<^verbatim>\<open>update(..).eq(..)\<close>: every row the filter matches is rewritten, the others are kept; a
  filter that matches no row is not an error of the store.
\<close>

definition update_where :: "('r \<Rightarrow> bool) \<Rightarrow> ('r \<Rightarrow> 'r) \<Rightarrow> 'r list \<Rightarrow> 'r list" where
  "update_where P f rows = map (\<lambda>r. if P r then f r else r) rows"

text \<open>JavaScript reads \<^verbatim>\<open>null\<close> as \<open>0\<close> in arithmetic, in a comparison and under \<^verbatim>\<open>|| 0\<close>;
  SQL's \<^verbatim>\<open>COALESCE(x, 0)\<close> does the same.\<close>

definition num :: "'a::zero option \<Rightarrow> 'a" where
  "num x = (case x of None \<Rightarrow> 0 | Some v \<Rightarrow> v)"

section \<open>Duration tracker (CleanerDashboard.tsx)\<close>

text \<open>JavaScript's \<^verbatim>\<open>%\<close>: the remainder has the sign of the dividend.\<close>

definition js_rem :: "int \<Rightarrow> int \<Rightarrow> int" where
  "js_rem a b = (if a < 0 then - ((- a) mod \<bar>b\<bar>) else a mod \<bar>b\<bar>)"

text \<open>Decimal rendering of an integer in a template literal.\<close>

fun string_of_nat :: "nat \<Rightarrow> string" where
  "string_of_nat n =
     (if n < 10 then [''0123456789'' ! n]
      else string_of_nat (n div 10) @ [''0123456789'' ! (n mod 10)])"

definition string_of_int :: "int \<Rightarrow> string" where
  "string_of_int i =
     (if i < 0 then CHR ''-'' # string_of_nat (nat (- i)) else string_of_nat (nat i))"

text \<open>
  The value of the variable \<^verbatim>\<open>duration\<close> of \<^verbatim>\<open>getJobDuration\<close> once the pause adjustment
  is made, for an order whose \<^verbatim>\<open>started_at\<close> is \<open>start\<close>. The function reads the clock
  twice: \<open>now1\<close> for \<^verbatim>\<open>end\<close>, \<open>now2\<close> inside the pause adjustment.
\<close>

definition duration_ms :: "booking \<Rightarrow> int \<Rightarrow> int \<Rightarrow> int \<Rightarrow> int" where
  "duration_ms order start now1 now2 =
     (let end = (case completed_at order of Some c \<Rightarrow> c | None \<Rightarrow> now1);
          duration = end - start - num (total_pause_duration order) * 60 * 1000
      in case paused_at order of
           Some p \<Rightarrow> if status order = Paused then duration - (now2 - p) else duration
         | None \<Rightarrow> duration)"

definition hours_of :: "int \<Rightarrow> int" where
  "hours_of duration = duration div (1000 * 60 * 60)"

definition minutes_of :: "int \<Rightarrow> int" where
  "minutes_of duration = js_rem duration (1000 * 60 * 60) div (1000 * 60)"

definition getJobDuration :: "booking \<Rightarrow> int \<Rightarrow> int \<Rightarrow> string" where
  "getJobDuration order now1 now2 =
     (case started_at order of
        None \<Rightarrow> ''0h 0m''
      | Some start \<Rightarrow>
          (let duration = duration_ms order start now1 now2
           in string_of_int (hours_of duration) @ ''h '' @
              string_of_int (minutes_of duration) @ ''m''))"

text \<open>The duration reported at one instant \<open>t\<close>: both clock reads return \<open>t\<close>.\<close>

definition getJobDuration_at :: "booking \<Rightarrow> int \<Rightarrow> string" where
  "getJobDuration_at order t = getJobDuration order t t"

section \<open>Dispatch queue and earnings ledger (CleanerDashboard.tsx, part_000)\<close>

text \<open>The caller's cleaner profile: \<^verbatim>\<open>from('cleaners').select(..).single()\<close>.\<close>

definition cleanerProfile_of :: "env \<Rightarrow> database \<Rightarrow> cleaner option" where
  "cleanerProfile_of e db =
     single (filter (\<lambda>c. visible_cleaner e (id_cleaner c)) (cleaners db))"

text \<open>
  \<^verbatim>\<open>fetchAvailableBookings\<close>: the pending, not deleted bookings by ascending
  \<^verbatim>\<open>scheduled_at\<close>; an error of the store is logged and yields the empty list.
\<close>

definition fetchAvailableBookings :: "env \<Rightarrow> database \<Rightarrow> booking list" where
  "fetchAvailableBookings e db =
     (case store_error e of
        Some err \<Rightarrow> []
      | None \<Rightarrow>
          sort_key scheduled_at
            (filter (\<lambda>b. status b = Pending \<and> \<not> is_deleted b) (bookings db)))"

text \<open>
  \<^verbatim>\<open>fetchCleanerBookings\<close>: the not deleted bookings assigned to the caller's cleaner
  profile, by descending \<^verbatim>\<open>scheduled_at\<close>; the empty list without a session, without a
  profile or on an error of the store.
\<close>

definition fetchCleanerBookings :: "env \<Rightarrow> database \<Rightarrow> booking list" where
  "fetchCleanerBookings e db =
     (case session e of
        None \<Rightarrow> []
      | Some u \<Rightarrow>
          (case cleanerProfile_of e db of
             None \<Rightarrow> []
           | Some cleanerProfile \<Rightarrow>
               (case store_error e of
                  Some err \<Rightarrow> []
                | None \<Rightarrow>
                    sort_key (\<lambda>b. - scheduled_at b)
                      (filter (\<lambda>b. cleaner_id b = Some (id_cleaner cleanerProfile) \<and>
                                     \<not> is_deleted b)
                         (bookings db)))))"

text \<open>The two lists \<^verbatim>\<open>loadOrders\<close> stores with \<^verbatim>\<open>setOrders\<close>.\<close>

definition currentOrders :: "booking list \<Rightarrow> booking list \<Rightarrow> booking list" where
  "currentOrders availableBookings cleanerBookings =
     sort_key scheduled_at
       (availableBookings @
        filter (\<lambda>booking.
                  payment_collected_at booking = None \<and>
                  status booking \<noteq> Payment_verified \<and>
                  (status booking = Pending \<or> status booking = Picked \<or>
                   status booking = In_progress \<or> status booking = Paused \<or>
                   status booking = Completed))
          cleanerBookings)"

definition historyOrders :: "booking list \<Rightarrow> booking list" where
  "historyOrders cleanerBookings =
     sort_key (\<lambda>b. - num (completed_at b))
       (filter (\<lambda>booking. payment_collected_at booking \<noteq> None \<and>
                           status booking = Payment_verified)
          cleanerBookings)"

text \<open>
  \<^verbatim>\<open>loadOrders\<close> as far as the order lists go: both fetches, here against one state of
  the store, and the two lists built from them.
\<close>

record orders =
  current :: "booking list"
  history :: "booking list"

definition loadOrders :: "env \<Rightarrow> database \<Rightarrow> orders" where
  "loadOrders e db =
     (let availableBookings = fetchAvailableBookings e db;
          cleanerBookings = fetchCleanerBookings e db
      in \<lparr>current = currentOrders availableBookings cleanerBookings,
          history = historyOrders cleanerBookings\<rparr>)"

text \<open>The earnings figures of \<^verbatim>\<open>loadOrders\<close> that do not depend on the calendar.\<close>

definition completedBookings :: "booking list \<Rightarrow> booking list" where
  "completedBookings cleanerBookings =
     filter (\<lambda>b. payment_collected_at b \<noteq> None) cleanerBookings"

definition pendingCashout :: "booking list \<Rightarrow> real" where
  "pendingCashout cleanerBookings =
     foldl (\<lambda>sum b. sum + amount b) 0 (completedBookings cleanerBookings)"

definition completedJobs :: "booking list \<Rightarrow> nat" where
  "completedJobs cleanerBookings = length (completedBookings cleanerBookings)"

text \<open>
  A JavaScript number is an IEEE 754 double. A finite double is kept here as a pair
  \<open>(m, e)\<close> of integers that stands for \<open>m * 2 ^ e\<close>, and every operation rounds the
  exact result to the nearest number with a significand of 53 bits, ties to the even
  significand. Overflow and subnormal numbers are left out: the quotients and sums of
  millisecond counts formed below stay far inside the normal range.
\<close>

type_synonym double = "int \<times> int"

definition double_value :: "double \<Rightarrow> real" where
  "double_value x =
     (case x of (m, e) \<Rightarrow>
        if 0 \<le> e then real_of_int m * 2 ^ nat e else real_of_int m / 2 ^ nat (- e))"

text \<open>The number of binary digits of a positive integer.\<close>

function bit_length :: "int \<Rightarrow> nat" where
  "bit_length a = (if a \<le> 0 then 0 else Suc (bit_length (a div 2)))"
  by pat_completeness auto
termination
  by (relation "measure nat") auto

text \<open>The integer nearest to \<open>n / d\<close> for \<open>0 \<le> n\<close> and \<open>0 < d\<close>, ties to even.\<close>

definition round_half_even :: "int \<Rightarrow> int \<Rightarrow> int" where
  "round_half_even n d =
     (let q = n div d; r = n mod d
      in if 2 * r < d then q else if d < 2 * r then q + 1 else if even q then q else q + 1)"

text \<open>The fraction \<open>a / (q * 2 ^ e)\<close> as a numerator and a denominator.\<close>

definition scaled :: "int \<Rightarrow> int \<Rightarrow> int \<Rightarrow> int \<times> int" where
  "scaled a q e = (if 0 \<le> e then (a, q * 2 ^ nat e) else (a * 2 ^ nat (- e), q))"

text \<open>
  The double nearest to the fraction \<open>p / q\<close>, for \<open>0 < q\<close>. The exponent \<open>e\<close> is the
  one for which \<open>\<bar>p\<bar> / (q * 2 ^ e)\<close> lies from \<open>2 ^ 52\<close> up to, not including,
  \<open>2 ^ 53\<close>: the bit lengths place it within one step, and the comparison settles it.
\<close>

definition round_to_double :: "int \<Rightarrow> int \<Rightarrow> double" where
  "round_to_double p q =
     (if p = 0 then (0, 0)
      else
        (let a = \<bar>p\<bar>;
             e0 = int (bit_length a) - int (bit_length q) - 53;
             e = (case scaled a q e0 of (n, d) \<Rightarrow> if 2 ^ 53 * d \<le> n then e0 + 1 else e0)
         in case scaled a q e of (n, d) \<Rightarrow> (sgn p * round_half_even n d, e)))"

definition double_of_int :: "int \<Rightarrow> double" where
  "double_of_int i = round_to_double i 1"

definition double_add :: "double \<Rightarrow> double \<Rightarrow> double" where
  "double_add x y =
     (case x of (m1, e1) \<Rightarrow> case y of (m2, e2) \<Rightarrow>
        (let e = min e1 e2;
             s = m1 * 2 ^ nat (e1 - e) + m2 * 2 ^ nat (e2 - e)
         in if 0 \<le> e then round_to_double (s * 2 ^ nat e) 1
            else round_to_double s (2 ^ nat (- e))))"

text \<open>A double divided by a positive integer that is a double itself.\<close>

definition double_div :: "double \<Rightarrow> int \<Rightarrow> double" where
  "double_div x q =
     (case x of (m, e) \<Rightarrow>
        if 0 \<le> e then round_to_double (m * 2 ^ nat e) q
        else round_to_double m (q * 2 ^ nat (- e)))"

text \<open>
  \<^verbatim>\<open>totalHours\<close>: the fold of \<^verbatim>\<open>sum + duration / (1000 * 60 * 60)\<close> from 0, where
  \<^verbatim>\<open>duration\<close> is the difference of the two \<^verbatim>\<open>getTime()\<close> values;
  \<^verbatim>\<open>new Date(null).getTime()\<close> is \<open>0\<close>, which \<open>num\<close> gives for a null timestamp.
\<close>

definition totalHours :: "booking list \<Rightarrow> double" where
  "totalHours cleanerBookings =
     foldl (\<lambda>sum b.
              let duration = double_of_int (num (completed_at b) - num (started_at b))
              in double_add sum (double_div duration (1000 * 60 * 60)))
       (0, 0) (completedBookings cleanerBookings)"

section \<open>Booking status machine (part_000)\<close>

text \<open>
  Each operation returns what it throws (\<open>None\<close> when it returns normally) and the
  store it leaves behind.
\<close>

definition pickBooking :: "env \<Rightarrow> database \<Rightarrow> uuid \<Rightarrow> error option \<times> database" where
  "pickBooking e db bookingId =
     (case session e of
        None \<Rightarrow> (Some Not_authenticated, db)
      | Some u \<Rightarrow>
          (case cleanerProfile_of e db of
             None \<Rightarrow> (Some Cleaner_profile_not_found, db)
           | Some cleanerProfile \<Rightarrow>
               (case store_error e of
                  Some err \<Rightarrow> (Some (Store_error err), db)
                | None \<Rightarrow>
                    (None,
                     db\<lparr>bookings :=
                          update_where
                            (\<lambda>b. id_booking b = bookingId \<and> status b = Pending \<and>
                                  \<not> is_deleted b)
                            (\<lambda>b. b\<lparr>cleaner_id := Some (id_cleaner cleanerProfile),
                                    status := Picked,
                                    picked_at := Some (now e)\<rparr>)
                            (bookings db)\<rparr>))))"

definition startJob :: "env \<Rightarrow> database \<Rightarrow> uuid \<Rightarrow> error option \<times> database" where
  "startJob e db bookingId =
     (case store_error e of
        Some err \<Rightarrow> (Some (Store_error err), db)
      | None \<Rightarrow>
          (None,
           db\<lparr>bookings :=
                update_where
                  (\<lambda>b. id_booking b = bookingId \<and> status b = Picked \<and> \<not> is_deleted b)
                  (\<lambda>b. b\<lparr>status := In_progress, started_at := Some (now e)\<rparr>)
                  (bookings db)\<rparr>))"

definition pauseJob :: "env \<Rightarrow> database \<Rightarrow> uuid \<Rightarrow> error option \<times> database" where
  "pauseJob e db bookingId =
     (case store_error e of
        Some err \<Rightarrow> (Some (Store_error err), db)
      | None \<Rightarrow>
          (None,
           db\<lparr>bookings :=
                update_where
                  (\<lambda>b. id_booking b = bookingId \<and> status b = In_progress \<and>
                        \<not> is_deleted b)
                  (\<lambda>b. b\<lparr>status := Paused, paused_at := Some (now e)\<rparr>)
                  (bookings db)\<rparr>))"

text \<open>
  \<^verbatim>\<open>resumeJob\<close> first reads the row by its id alone (\<^verbatim>\<open>.single()\<close>, the error of the read
  is not looked at) and throws when there is no row or no \<^verbatim>\<open>paused_at\<close>; the pause is
  counted in whole minutes, rounded down.
\<close>

definition resumeJob :: "env \<Rightarrow> database \<Rightarrow> uuid \<Rightarrow> error option \<times> database" where
  "resumeJob e db bookingId =
     (case single (filter (\<lambda>b. id_booking b = bookingId) (bookings db)) of
        None \<Rightarrow> (Some Job_not_paused, db)
      | Some booking \<Rightarrow>
          (case paused_at booking of
             None \<Rightarrow> (Some Job_not_paused, db)
           | Some p \<Rightarrow>
               (let pauseDuration = (now e - p) div (1000 * 60)
                in case store_error e of
                     Some err \<Rightarrow> (Some (Store_error err), db)
                   | None \<Rightarrow>
                       (None,
                        db\<lparr>bookings :=
                             update_where
                               (\<lambda>b. id_booking b = bookingId \<and> status b = Paused \<and>
                                     \<not> is_deleted b)
                               (\<lambda>b. b\<lparr>status := In_progress,
                                       paused_at := None,
                                       total_pause_duration :=
                                         Some (num (total_pause_duration booking) +
                                               pauseDuration)\<rparr>)
                               (bookings db)\<rparr>))))"

definition completeJob :: "env \<Rightarrow> database \<Rightarrow> uuid \<Rightarrow> error option \<times> database" where
  "completeJob e db bookingId =
     (case store_error e of
        Some err \<Rightarrow> (Some (Store_error err), db)
      | None \<Rightarrow>
          (None,
           db\<lparr>bookings :=
                update_where
                  (\<lambda>b. id_booking b = bookingId \<and>
                        (status b = In_progress \<or> status b = Paused) \<and>
                        \<not> is_deleted b)
                  (\<lambda>b. b\<lparr>status := Completed, completed_at := Some (now e)\<rparr>)
                  (bookings db)\<rparr>))"

section \<open>Payment verification trigger (20250124210416_steep_unit.sql)\<close>

text \<open>
  The trigger function, run before a row update that assigns \<^verbatim>\<open>payment_proof_url\<close>:
  from the clock, the \<^verbatim>\<open>services\<close> and \<^verbatim>\<open>cleaners\<close> tables and the row before (\<open>OLD\<close>)
  and after (\<open>NEW\<close>) the assignment, it returns the row to store and the
  \<^verbatim>\<open>cleaners\<close> table. A service that is not found leaves \<^verbatim>\<open>service_name\<close> null, and a
  null \<^verbatim>\<open>cleaner_id\<close> matches no cleaner.
\<close>

definition verify_payment_and_update_earnings ::
  "int \<Rightarrow> (uuid \<rightharpoonup> string) \<Rightarrow> cleaner list \<Rightarrow> booking \<Rightarrow> booking \<Rightarrow> booking \<times> cleaner list" where
  "verify_payment_and_update_earnings ts svc cls OLD NEW =
     (if payment_proof_url NEW \<noteq> None \<and> payment_proof_url OLD = None then
        (let NEW1 = NEW\<lparr>payment_collected_at := Some ts, status := Payment_verified\<rparr>;
             service_name = svc (service_id NEW1);
             earning_amount = (if service_name = Some ''Car Wash'' then 150 else 200);
             earnings_entry =
               \<lparr>booking_id = id_booking NEW1, amount_entry = earning_amount,
                service = service_name, earned_at = ts\<rparr>
         in (NEW1,
             update_where (\<lambda>c. Some (id_cleaner c) = cleaner_id NEW1)
               (\<lambda>c. c\<lparr>earnings_balance := Some (num (earnings_balance c) + earning_amount),
                       earnings_history :=
                         Some ((case earnings_history c of None \<Rightarrow> [] | Some h \<Rightarrow> h) @
                               [earnings_entry])\<rparr>)
               cls))
      else (NEW, cls))"

section \<open>Proof of payment and withdrawal (part_000)\<close>

text \<open>
  The row update of \<^verbatim>\<open>uploadPaymentProof\<close>: every row with the given id gets the proof
  URL and the client's clock as \<^verbatim>\<open>payment_collected_at\<close>, and the trigger runs on each
  such row before it is stored. The filter is the id alone.
\<close>

fun update_payment_proof ::
  "env \<Rightarrow> (uuid \<rightharpoonup> string) \<Rightarrow> uuid \<Rightarrow> booking list \<Rightarrow> cleaner list \<Rightarrow> booking list \<times> cleaner list" where
  "update_payment_proof e svc bookingId [] cls = ([], cls)"
| "update_payment_proof e svc bookingId (b # bs) cls =
     (if id_booking b = bookingId then
        (case verify_payment_and_update_earnings (current_timestamp e) svc cls b
                (b\<lparr>payment_proof_url := Some (public_url e),
                   payment_collected_at := Some (now e)\<rparr>) of
           (b', cls') \<Rightarrow>
             (case update_payment_proof e svc bookingId bs cls' of
                (bs', cls'') \<Rightarrow> (b' # bs', cls'')))
      else
        (case update_payment_proof e svc bookingId bs cls of
           (bs', cls') \<Rightarrow> (b # bs', cls')))"

text \<open>
  \<^verbatim>\<open>uploadPaymentProof\<close> returns the public URL or throws. Its update ends in
  \<^verbatim>\<open>.select().single()\<close>: when the filter does not match exactly one row the store
  answers with error \<^verbatim>\<open>PGRST116\<close> and applies nothing.
\<close>

definition uploadPaymentProof :: "env \<Rightarrow> database \<Rightarrow> uuid \<Rightarrow> (error + string) \<times> database" where
  "uploadPaymentProof e db bookingId =
     (case session e of
        None \<Rightarrow> (Inl Not_authenticated, db)
      | Some u \<Rightarrow>
          (case upload_error e of
             Some err \<Rightarrow> (Inl (Store_error err), db)
           | None \<Rightarrow>
               (case update_error e of
                  Some err \<Rightarrow> (Inl (Store_error err), db)
                | None \<Rightarrow>
                    (if length (filter (\<lambda>b. id_booking b = bookingId) (bookings db)) \<noteq> 1
                     then (Inl (Store_error ''PGRST116''), db)
                     else
                       (case update_payment_proof e (services db) bookingId
                               (bookings db) (cleaners db) of
                          (bs', cls') \<Rightarrow>
                            (Inr (public_url e), db\<lparr>bookings := bs', cleaners := cls'\<rparr>))))))"

text \<open>
  \<^verbatim>\<open>requestWithdrawal\<close>: the record is inserted first and the balance is written next,
  as the difference of the balance read at the start and the amount.
\<close>

definition requestWithdrawal :: "env \<Rightarrow> database \<Rightarrow> real \<Rightarrow> error option \<times> database" where
  "requestWithdrawal e db amt =
     (case session e of
        None \<Rightarrow> (Some Not_authenticated, db)
      | Some u \<Rightarrow>
          (case cleanerProfile_of e db of
             None \<Rightarrow> (Some Cleaner_profile_not_found, db)
           | Some cleaner \<Rightarrow>
               (if num (earnings_balance cleaner) < amt then (Some Insufficient_balance, db)
                else
                  (case store_error e of
                     Some err \<Rightarrow> (Some (Store_error err), db)
                   | None \<Rightarrow>
                       (let db1 = db\<lparr>earnings_withdrawals :=
                                       earnings_withdrawals db @
                                       [\<lparr>cleaner_id_withdrawal = id_cleaner cleaner,
                                         amount_withdrawal = amt\<rparr>]\<rparr>
                        in case update_error e of
                             Some err \<Rightarrow> (Some (Store_error err), db1)
                           | None \<Rightarrow>
                               (None,
                                db1\<lparr>cleaners :=
                                      update_where
                                        (\<lambda>c. id_cleaner c = id_cleaner cleaner)
                                        (\<lambda>c. c\<lparr>earnings_balance :=
                                                  Some (num (earnings_balance cleaner) - amt)\<rparr>)
                                        (cleaners db1)\<rparr>))))))"

section \<open>Runs of operations\<close>

text \<open>
  The operations a client can issue against the store, each with the environment of its
  call, and the store a sequence of them leaves behind. An operation that throws leaves
  whatever it had written before.
\<close>

datatype operation =
  PickBooking uuid
  | StartJob uuid
  | PauseJob uuid
  | ResumeJob uuid
  | CompleteJob uuid
  | UploadPaymentProof uuid
  | RequestWithdrawal real

fun step :: "env \<Rightarrow> operation \<Rightarrow> database \<Rightarrow> database" where
  "step e (PickBooking bookingId) db = snd (pickBooking e db bookingId)"
| "step e (StartJob bookingId) db = snd (startJob e db bookingId)"
| "step e (PauseJob bookingId) db = snd (pauseJob e db bookingId)"
| "step e (ResumeJob bookingId) db = snd (resumeJob e db bookingId)"
| "step e (CompleteJob bookingId) db = snd (completeJob e db bookingId)"
| "step e (UploadPaymentProof bookingId) db = snd (uploadPaymentProof e db bookingId)"
| "step e (RequestWithdrawal amt) db = snd (requestWithdrawal e db amt)"

fun run :: "(env \<times> operation) list \<Rightarrow> database \<Rightarrow> database" where
  "run [] db = db"
| "run ((e, opn) # ops) db = run ops (step e opn db)"

section \<open>Properties stated by the specification\<close>

text \<open>The field-presence invariant of the data model: \<^verbatim>\<open>paused_at\<close> is non-null iff the
  status is \<^verbatim>\<open>paused\<close>.\<close>

definition paused_at_iff_paused :: "booking \<Rightarrow> bool" where
  "paused_at_iff_paused b = ((paused_at b \<noteq> None) = (status b = Paused))"

text \<open>
  What the operations keep true of every booking: a paused booking has its \<^verbatim>\<open>paused_at\<close>,
  the payment is collected exactly when the status is \<^verbatim>\<open>payment_verified\<close>, and a proof
  is on file only for a verified booking.
\<close>

definition booking_consistent :: "booking \<Rightarrow> bool" where
  "booking_consistent b \<longleftrightarrow>
     (status b = Paused \<longrightarrow> paused_at b \<noteq> None) \<and>
     ((payment_collected_at b \<noteq> None) = (status b = Payment_verified)) \<and>
     (payment_proof_url b \<noteq> None \<longrightarrow> status b = Payment_verified)"

text \<open>
  The active duration of a finished booking in milliseconds as the duration tracker
  defines it, \<open>(end - start) - total_pause_duration\<close>, and the \<^verbatim>\<open>totalHours\<close> statistic
  the specification derives from it.
\<close>

definition active_duration_ms :: "booking \<Rightarrow> int" where
  "active_duration_ms b =
     (num (completed_at b) - num (started_at b)) - num (total_pause_duration b) * 60 * 1000"

definition totalHours_spec :: "booking list \<Rightarrow> real" where
  "totalHours_spec cleanerBookings =
     (\<Sum>b\<leftarrow>completedBookings cleanerBookings. real_of_int (active_duration_ms b) / (1000 * 60 * 60))"

section \<open>Sample data\<close>

text \<open>A booking as \<^verbatim>\<open>createBooking\<close> inserts it, two cleaners without earnings, and a
  caller signed in as a cleaner at a given clock reading.\<close>

definition booking0 :: booking where
  "booking0 =
     \<lparr>id_booking = ''b1'', cleaner_id = None, service_id = ''s1'', status = Pending,
      scheduled_at = 0, picked_at = None, started_at = None, paused_at = None,
      total_pause_duration = None, completed_at = None, payment_collected_at = None,
      payment_proof_url = None, amount = 500, is_deleted = False\<rparr>"

definition db0 :: database where
  "db0 =
     \<lparr>bookings = [booking0],
      cleaners =
        [\<lparr>id_cleaner = ''c1'', earnings_balance = None, earnings_history = None\<rparr>,
         \<lparr>id_cleaner = ''c2'', earnings_balance = None, earnings_history = None\<rparr>],
      services = [''s1'' \<mapsto> ''Car Wash''],
      earnings_withdrawals = []\<rparr>"

definition cleaner_env :: "uuid \<Rightarrow> int \<Rightarrow> env" where
  "cleaner_env cid t =
     \<lparr>session = Some cid, visible_cleaner = (\<lambda>c. c = cid), now = t, current_timestamp = t,
      public_url = ''proof.jpg'', store_error = None, upload_error = None,
      update_error = None\<rparr>"

text \<open>The store after cleaner \<open>c1\<close> has picked the booking at time 10.\<close>

definition db_picked :: database where
  "db_picked = snd (pickBooking (cleaner_env ''c1'' 10) db0 ''b1'')"

text \<open>The store after \<open>c1\<close> has picked the booking at 10, started the job at 20,
  paused it at 30 and completed it at 40 without resuming.\<close>

definition db_completed_from_paused :: database where
  "db_completed_from_paused =
     run [(cleaner_env ''c1'' 10, PickBooking ''b1''),
          (cleaner_env ''c1'' 20, StartJob ''b1''),
          (cleaner_env ''c1'' 30, PauseJob ''b1''),
          (cleaner_env ''c1'' 40, CompleteJob ''b1'')] db0"

text \<open>A job of one hour on the clock, half of it paused, with the payment collected.\<close>

definition booking_half_paused :: booking where
  "booking_half_paused =
     booking0\<lparr>id_booking := ''b2'', cleaner_id := Some ''c1'', status := Payment_verified,
              started_at := Some 0,
              total_pause_duration := Some 30, completed_at := Some 3600000,
              payment_collected_at := Some 3700000,
              payment_proof_url := Some ''proof.jpg''\<rparr>"

text \<open>Two paid jobs of 6 and of 12 minutes.\<close>

definition booking_6_minutes :: booking where
  "booking_6_minutes =
     booking0\<lparr>id_booking := ''b3'', cleaner_id := Some ''c1'', status := Payment_verified,
              started_at := Some 0, completed_at := Some 360000,
              payment_collected_at := Some 400000,
              payment_proof_url := Some ''proof.jpg''\<rparr>"

definition booking_12_minutes :: booking where
  "booking_12_minutes =
     booking0\<lparr>id_booking := ''b4'', cleaner_id := Some ''c1'', status := Payment_verified,
              started_at := Some 400000, completed_at := Some 1120000,
              payment_collected_at := Some 1200000,
              payment_proof_url := Some ''proof.jpg''\<rparr>"

text \<open>A booking paused at minute 10 of a job that started at time 0.\<close>

definition booking_paused :: booking where
  "booking_paused =
     booking0\<lparr>cleaner_id := Some ''c1'', status := Paused, started_at := Some 0,
              paused_at := Some 600000\<rparr>"

text \<open>The booking picked by \<open>c1\<close>, worked and completed, before any proof is uploaded.\<close>

definition booking_completed :: booking where
  "booking_completed =
     booking0\<lparr>cleaner_id := Some ''c1'', status := Completed, picked_at := Some 10,
              started_at := Some 20, completed_at := Some 40\<rparr>"

text \<open>The store holding that completed booking, and the store after \<open>c1\<close> has uploaded
  the proof for it at time 50.\<close>

definition db_completed :: database where
  "db_completed = db0\<lparr>bookings := [booking_completed]\<rparr>"

definition db_paid :: database where
  "db_paid = snd (uploadPaymentProof (cleaner_env ''c1'' 50) db_completed ''b1'')"

text \<open>The store after a proof has been uploaded for the still pending booking at time 50.\<close>

definition db_verified :: database where
  "db_verified = snd (uploadPaymentProof (cleaner_env ''c2'' 50) db0 ''b1'')"

text \<open>A store in which cleaner \<open>c1\<close> has a balance of 100.\<close>

definition db_balance_100 :: database where
  "db_balance_100 =
     db0\<lparr>cleaners :=
           [\<lparr>id_cleaner = ''c1'', earnings_balance = Some 100, earnings_history = None\<rparr>,
            \<lparr>id_cleaner = ''c2'', earnings_balance = None, earnings_history = None\<rparr>]\<rparr>"

text \<open>
  A store of two pending bookings, and the store after \<open>c1\<close> has taken the first one from
  pickup to the proof of payment.
\<close>

definition db_two_pending :: database where
  "db_two_pending = db0\<lparr>bookings := [booking0, booking0\<lparr>id_booking := ''b2''\<rparr>]\<rparr>"

definition db_one_paid :: database where
  "db_one_paid =
     run [(cleaner_env ''c1'' 10, PickBooking ''b1''),
          (cleaner_env ''c1'' 20, StartJob ''b1''),
          (cleaner_env ''c1'' 40, CompleteJob ''b1''),
          (cleaner_env ''c1'' 50, UploadPaymentProof ''b1'')] db_two_pending"

lemmas lifecycle_defs = pickBooking_def startJob_def pauseJob_def resumeJob_def
  completeJob_def cleanerProfile_of_def update_where_def num_def

section \<open>Auxiliary facts\<close>

lemma single_Some_iff: "single xs = Some x \<longleftrightarrow> xs = [x]"
  by (cases xs rule: single.cases) auto

lemma foldl_add_sum_list:
  "foldl (\<lambda>s b. s + f b) a xs = a + sum_list (map f xs)" for a :: real
  by (induction xs arbitrary: a) simp_all

lemma filter_update_where_id:
  assumes "\<And>c. id_cleaner (f c) = id_cleaner c"
  shows "filter (\<lambda>c. V (id_cleaner c)) (update_where P f cls) =
         update_where P f (filter (\<lambda>c. V (id_cleaner c)) cls)"
  using assms by (induction cls) (auto simp: update_where_def)

lemma cleanerProfile_of_update:
  assumes "cleanerProfile_of e db = Some c" "\<And>c. id_cleaner (f c) = id_cleaner c"
  shows "cleanerProfile_of e (db\<lparr>cleaners := update_where P f (cleaners db)\<rparr>) =
         Some (if P c then f c else c)"
  using assms
  by (simp add: cleanerProfile_of_def single_Some_iff filter_update_where_id)
     (simp add: update_where_def)

lemma in_set_update_where:
  "r \<in> set (update_where P f rows) \<longleftrightarrow> (\<exists>r0\<in>set rows. r = (if P r0 then f r0 else r0))"
  by (auto simp: update_where_def)

lemma update_where_mem: "r \<in> set rows \<Longrightarrow> P r \<Longrightarrow> f r \<in> set (update_where P f rows)"
  unfolding in_set_update_where by (rule bexI [of _ r]) simp_all

lemma update_where_no_match: "(\<And>r. r \<in> set rows \<Longrightarrow> \<not> P r) \<Longrightarrow> update_where P f rows = rows"
  by (induction rows) (simp_all add: update_where_def)

section \<open>Duration tracker\<close>

lemma duration_ms_paused:
  assumes "status order = Paused" "paused_at order = Some p" "completed_at order = None"
  shows "duration_ms order start t t = p - start - num (total_pause_duration order) * 60 * 1000"
  using assms by (simp add: duration_ms_def)

text \<open>With the two clock reads apart, a paused job shows the time between them less.\<close>

lemma duration_ms_paused_reads:
  assumes "status order = Paused" "paused_at order = Some p" "completed_at order = None"
  shows "duration_ms order start now1 now2 =
           p - start - num (total_pause_duration order) * 60 * 1000 - (now2 - now1)"
  using assms by (simp add: duration_ms_def)

lemma hours_minutes_nonneg:
  "0 \<le> d \<Longrightarrow> 0 \<le> hours_of d \<and> 0 \<le> minutes_of d \<and> minutes_of d < 60"
  by (simp add: hours_of_def minutes_of_def js_rem_def pos_imp_zdiv_nonneg_iff)

lemma hours_minutes_neg:
  assumes "d < 0"
  shows "hours_of d < 0 \<and> minutes_of d \<le> 0"
proof -
  have "hours_of d < 0"
    using assms by (simp add: hours_of_def div_neg_pos_less0)
  moreover have "js_rem d (1000 * 60 * 60) \<le> 0"
    using assms by (simp add: js_rem_def)
  then have "minutes_of d \<le> 0"
    unfolding minutes_of_def by (simp add: div_nonpos_pos_le0)
  ultimately show ?thesis by simp
qed

text \<open>When both clock reads give the same instant, a paused job shows the same duration
  at every instant.\<close>

lemma getJobDuration_at_frozen:
  assumes "status order = Paused" "paused_at order = Some p" "completed_at order = None"
  shows "getJobDuration_at order t = getJobDuration_at order p"
  using assms
  by (simp add: getJobDuration_at_def getJobDuration_def duration_ms_paused split: option.split)

text \<open>In general the duration shown for a paused job depends on the time between the two
  reads, and on nothing else of the clock.\<close>

lemma getJobDuration_paused_gap:
  assumes "status order = Paused" "paused_at order = Some p" "completed_at order = None"
    and "now2 - now1 = now2' - now1'"
  shows "getJobDuration order now1 now2 = getJobDuration order now1' now2'"
  using assms
  by (simp add: getJobDuration_def duration_ms_paused_reads split: option.split)

text \<open>
  Claim C9 on a booking paused at minute 10 of its job. Evaluated at the instant of
  \<^verbatim>\<open>paused_at\<close>, \<^verbatim>\<open>getJobDuration\<close> reports 10 minutes; evaluated five minutes later, with
  its two clock reads one millisecond apart, it reports 9 minutes, where the claim has
  the value of the instant \<^verbatim>\<open>paused_at\<close> at every later time. The function subtracts the
  time since \<^verbatim>\<open>paused_at\<close> to cancel the current time, but takes that time from a second
  read of the clock.
\<close>

theorem getJobDuration_paused_between_reads:
  "getJobDuration booking_paused 600000 600000 = ''0h 10m'' \<and>
   getJobDuration booking_paused 900000 900001 = ''0h 9m''"
  by (simp add: getJobDuration_def duration_ms_def hours_of_def minutes_of_def js_rem_def
      string_of_int_def num_def booking_paused_def booking0_def)

text \<open>
  Claim C8, as amended. \<^verbatim>\<open>getJobDuration\<close> does not clamp. For a started booking it
  prints the hours \<open>\<lfloor>d / 1h\<rfloor>\<close> and the minutes \<open>\<lfloor>(d % 1h) / 1min\<rfloor>\<close> of the computed
  duration \<open>d\<close> as they are: both are non-negative (and the minutes below 60) when
  \<open>d\<close> is non-negative, and the hours are negative and the minutes not positive
  when \<open>d\<close> is negative.
\<close>

theorem getJobDuration_sign:
  assumes "started_at order = Some start"
  shows "getJobDuration order now1 now2 =
           string_of_int (hours_of (duration_ms order start now1 now2)) @ ''h '' @
           string_of_int (minutes_of (duration_ms order start now1 now2)) @ ''m'' \<and>
         (0 \<le> duration_ms order start now1 now2 \<longrightarrow>
            0 \<le> hours_of (duration_ms order start now1 now2) \<and>
            0 \<le> minutes_of (duration_ms order start now1 now2) \<and>
            minutes_of (duration_ms order start now1 now2) < 60) \<and>
         (duration_ms order start now1 now2 < 0 \<longrightarrow>
            hours_of (duration_ms order start now1 now2) < 0 \<and>
            minutes_of (duration_ms order start now1 now2) \<le> 0)"
  using assms hours_minutes_nonneg hours_minutes_neg
  by (simp add: getJobDuration_def Let_def)

text \<open>Both cases at work: a finished job with 30 active minutes, and a job whose
  \<^verbatim>\<open>completed_at\<close> lies one second before its \<^verbatim>\<open>started_at\<close>.\<close>

theorem getJobDuration_sign_witness:
  "getJobDuration booking_half_paused 5 5 = ''0h 30m'' \<and>
   0 \<le> hours_of (duration_ms booking_half_paused 0 5 5) \<and>
   0 \<le> minutes_of (duration_ms booking_half_paused 0 5 5) \<and>
   hours_of (duration_ms (booking0\<lparr>started_at := Some 1000, completed_at := Some 0\<rparr>) 1000 5 5) < 0"
proof -
  have s1: "started_at booking_half_paused = Some 0"
    by (simp add: booking_half_paused_def booking0_def)
  have d1: "duration_ms booking_half_paused 0 5 5 = 1800000"
    by (simp add: duration_ms_def num_def booking_half_paused_def booking0_def)
  have s2: "started_at (booking0\<lparr>started_at := Some 1000, completed_at := Some 0\<rparr>) = Some 1000"
    by simp
  have d2: "duration_ms (booking0\<lparr>started_at := Some 1000, completed_at := Some 0\<rparr>) 1000 5 5
            = - 1000"
    by (simp add: duration_ms_def num_def booking0_def)
  have r: "string_of_int (hours_of 1800000) @ ''h '' @ string_of_int (minutes_of 1800000) @ ''m''
           = ''0h 30m''"
    by (simp add: hours_of_def minutes_of_def js_rem_def string_of_int_def)
  from getJobDuration_sign [OF s1, of 5 5] getJobDuration_sign [OF s2, of 5 5]
  show ?thesis
    unfolding d1 d2 r by simp
qed

text \<open>Claim C8 as stated fails: with \<^verbatim>\<open>completed_at\<close> one second before \<^verbatim>\<open>started_at\<close> the
  computed duration is negative and the output is not \<^verbatim>\<open>0h 0m\<close>.\<close>

theorem getJobDuration_negative_counterexample:
  "duration_ms (booking0\<lparr>started_at := Some 1000, completed_at := Some 0\<rparr>) 1000 5 5 < 0 \<and>
   getJobDuration (booking0\<lparr>started_at := Some 1000, completed_at := Some 0\<rparr>) 5 5 = ''-1h -1m''"
  by (simp add: getJobDuration_def duration_ms_def hours_of_def minutes_of_def js_rem_def
      string_of_int_def num_def booking0_def)

section \<open>Earnings statistics\<close>

lemmas double_defs = double_value_def round_half_even_def scaled_def round_to_double_def
  double_of_int_def double_add_def double_div_def

text \<open>The sum is one of doubles: 6 and 12 minutes make \<^verbatim>\<open>0.30000000000000004\<close> hours.\<close>

lemma totalHours_rounds:
  "double_value (totalHours [booking_6_minutes, booking_12_minutes]) =
     1351079888211149 / 4503599627370496"
  by (simp add: totalHours_def completedBookings_def double_defs Let_def num_def
      booking_6_minutes_def booking_12_minutes_def booking0_def)

text \<open>\<^verbatim>\<open>totalHours\<close> does not read \<^verbatim>\<open>total_pause_duration\<close>: whatever the pauses recorded,
  the figure is the same.\<close>

lemma totalHours_ignores_pauses:
  "totalHours (map (\<lambda>b. b\<lparr>total_pause_duration := d b\<rparr>) cleanerBookings) =
   totalHours cleanerBookings"
  by (simp add: totalHours_def completedBookings_def filter_map foldl_map comp_def)

text \<open>
  Claim C7 on a paid job of one hour on the clock, 30 minutes of it paused:
  \<^verbatim>\<open>totalHours\<close> counts one hour, where the claim has the active duration of section 4.2,
  half an hour, which is what \<^verbatim>\<open>getJobDuration\<close> shows for the same booking.
\<close>

theorem totalHours_counts_paused_time:
  "double_value (totalHours [booking_half_paused]) = 1 \<and>
   totalHours_spec [booking_half_paused] = 1 / 2 \<and>
   getJobDuration booking_half_paused 5 5 = ''0h 30m''"
  by (simp add: totalHours_def totalHours_spec_def completedBookings_def active_duration_ms_def
      double_defs Let_def getJobDuration_def duration_ms_def hours_of_def minutes_of_def
      js_rem_def string_of_int_def num_def booking_half_paused_def booking0_def)

section \<open>Dispatch queue\<close>

lemma fetchAvailableBookings_pending:
  "b \<in> set (fetchAvailableBookings e db) \<Longrightarrow> status b = Pending \<and> b \<in> set (bookings db)"
  by (simp add: fetchAvailableBookings_def split: option.splits)

lemma fetchCleanerBookings_subset:
  "b \<in> set (fetchCleanerBookings e db) \<Longrightarrow> b \<in> set (bookings db)"
  by (simp add: fetchCleanerBookings_def split: option.splits) blast

lemma in_currentOrders:
  "b \<in> set (currentOrders av cb) \<longleftrightarrow>
     b \<in> set av \<or>
     (b \<in> set cb \<and> payment_collected_at b = None \<and> status b \<noteq> Payment_verified)"
  by (cases "status b") (auto simp: currentOrders_def)

lemma in_historyOrders:
  "b \<in> set (historyOrders cb) \<longleftrightarrow>
     b \<in> set cb \<and> payment_collected_at b \<noteq> None \<and> status b = Payment_verified"
  by (simp add: historyOrders_def)

lemma fetched_in_exactly_one:
  assumes b: "b \<in> set (fetchAvailableBookings e db) \<union> set (fetchCleanerBookings e db)"
    and inv: "b \<in> set (fetchCleanerBookings e db) \<Longrightarrow>
              (payment_collected_at b \<noteq> None) = (status b = Payment_verified)"
  shows "(b \<in> set (current (loadOrders e db))) \<noteq> (b \<in> set (history (loadOrders e db)))"
proof (cases "b \<in> set (fetchAvailableBookings e db)")
  case True
  then have "status b = Pending" by (simp add: fetchAvailableBookings_pending)
  with True show ?thesis
    by (simp add: loadOrders_def Let_def in_currentOrders in_historyOrders)
next
  case False
  with b have mine: "b \<in> set (fetchCleanerBookings e db)" by simp
  with False inv [OF mine] show ?thesis
    by (cases "payment_collected_at b")
       (simp_all add: loadOrders_def Let_def in_currentOrders in_historyOrders)
qed

section \<open>Withdrawal\<close>

text \<open>
  Claim C10. For a signed-in caller with a cleaner profile and a store that accepts the
  writes, \<^verbatim>\<open>requestWithdrawal\<close> throws \<^verbatim>\<open>Insufficient balance\<close> exactly when the balance
  is strictly below the amount. Otherwise it returns normally, the withdrawal record is
  appended and the balance becomes balance minus amount: an amount equal to the balance
  leaves 0, and an amount that is 0 or negative is accepted on a non-negative balance
  and raises the balance by its absolute value.
\<close>

theorem requestWithdrawal_balance_check:
  assumes "session e = Some u" "cleanerProfile_of e db = Some c"
    and "store_error e = None" "update_error e = None"
  shows "(fst (requestWithdrawal e db amt) = Some Insufficient_balance) =
           (num (earnings_balance c) < amt) \<and>
         (\<not> num (earnings_balance c) < amt \<longrightarrow>
            fst (requestWithdrawal e db amt) = None \<and>
            earnings_withdrawals (snd (requestWithdrawal e db amt)) =
              earnings_withdrawals db @
              [\<lparr>cleaner_id_withdrawal = id_cleaner c, amount_withdrawal = amt\<rparr>] \<and>
            cleanerProfile_of e (snd (requestWithdrawal e db amt)) =
              Some (c\<lparr>earnings_balance := Some (num (earnings_balance c) - amt)\<rparr>)) \<and>
         (amt = num (earnings_balance c) \<longrightarrow>
            fst (requestWithdrawal e db amt) = None \<and>
            cleanerProfile_of e (snd (requestWithdrawal e db amt)) =
              Some (c\<lparr>earnings_balance := Some 0\<rparr>)) \<and>
         (amt \<le> 0 \<and> 0 \<le> num (earnings_balance c) \<longrightarrow>
            fst (requestWithdrawal e db amt) = None \<and>
            cleanerProfile_of e (snd (requestWithdrawal e db amt)) =
              Some (c\<lparr>earnings_balance := Some (num (earnings_balance c) + \<bar>amt\<bar>)\<rparr>))"
proof -
  let ?w = "\<lparr>cleaner_id_withdrawal = id_cleaner c, amount_withdrawal = amt\<rparr>"
  let ?db1 = "db\<lparr>earnings_withdrawals := earnings_withdrawals db @ [?w]\<rparr>"
  let ?f = "\<lambda>r. r\<lparr>earnings_balance := Some (num (earnings_balance c) - amt)\<rparr>"
  have iff: "(fst (requestWithdrawal e db amt) = Some Insufficient_balance) =
           (num (earnings_balance c) < amt)"
    using assms by (simp add: requestWithdrawal_def Let_def)
  have accepted: "fst (requestWithdrawal e db amt) = None \<and>
        earnings_withdrawals (snd (requestWithdrawal e db amt)) = earnings_withdrawals db @ [?w] \<and>
        cleanerProfile_of e (snd (requestWithdrawal e db amt)) = Some (?f c)"
    if ok: "\<not> num (earnings_balance c) < amt"
  proof -
    have res: "requestWithdrawal e db amt =
        (None, ?db1\<lparr>cleaners :=
                      update_where (\<lambda>r. id_cleaner r = id_cleaner c) ?f (cleaners ?db1)\<rparr>)"
      using assms ok by (simp add: requestWithdrawal_def Let_def)
    have prof1: "cleanerProfile_of e ?db1 = Some c"
      using assms(2) by (simp add: cleanerProfile_of_def)
    have "cleanerProfile_of e
            (?db1\<lparr>cleaners :=
                    update_where (\<lambda>r. id_cleaner r = id_cleaner c) ?f (cleaners ?db1)\<rparr>)
          = Some (?f c)"
      using cleanerProfile_of_update [OF prof1, of ?f "\<lambda>r. id_cleaner r = id_cleaner c"]
      by simp
    with res show ?thesis by simp
  qed
  have zero: "fst (requestWithdrawal e db amt) = None \<and>
      cleanerProfile_of e (snd (requestWithdrawal e db amt)) = Some (c\<lparr>earnings_balance := Some 0\<rparr>)"
    if "amt = num (earnings_balance c)"
    using accepted that by simp
  have neg: "fst (requestWithdrawal e db amt) = None \<and>
      cleanerProfile_of e (snd (requestWithdrawal e db amt)) =
        Some (c\<lparr>earnings_balance := Some (num (earnings_balance c) + \<bar>amt\<bar>)\<rparr>)"
    if "amt \<le> 0 \<and> 0 \<le> num (earnings_balance c)"
    using accepted that by simp
  from iff accepted zero neg show ?thesis by blast
qed

text \<open>On a balance of 100: 101 is refused, 100 leaves 0, and \<open>-50\<close> leaves 150.\<close>

theorem requestWithdrawal_balance_check_witness:
  "fst (requestWithdrawal (cleaner_env ''c1'' 60) db_balance_100 101) = Some Insufficient_balance \<and>
   fst (requestWithdrawal (cleaner_env ''c1'' 60) db_balance_100 100) = None \<and>
   cleanerProfile_of (cleaner_env ''c1'' 60)
     (snd (requestWithdrawal (cleaner_env ''c1'' 60) db_balance_100 100)) =
     Some \<lparr>id_cleaner = ''c1'', earnings_balance = Some 0, earnings_history = None\<rparr> \<and>
   fst (requestWithdrawal (cleaner_env ''c1'' 60) db_balance_100 (- 50)) = None \<and>
   cleanerProfile_of (cleaner_env ''c1'' 60)
     (snd (requestWithdrawal (cleaner_env ''c1'' 60) db_balance_100 (- 50))) =
     Some \<lparr>id_cleaner = ''c1'', earnings_balance = Some 150, earnings_history = None\<rparr>"
proof -
  have h: "session (cleaner_env ''c1'' 60) = Some ''c1''"
    "cleanerProfile_of (cleaner_env ''c1'' 60) db_balance_100 =
       Some \<lparr>id_cleaner = ''c1'', earnings_balance = Some 100, earnings_history = None\<rparr>"
    "store_error (cleaner_env ''c1'' 60) = None" "update_error (cleaner_env ''c1'' 60) = None"
    by (simp_all add: cleanerProfile_of_def cleaner_env_def db_balance_100_def db0_def)
  from requestWithdrawal_balance_check [OF h, of 101]
    requestWithdrawal_balance_check [OF h, of 100]
    requestWithdrawal_balance_check [OF h, of "- 50"]
  show ?thesis by (simp add: num_def)
qed

section \<open>Booking status machine\<close>

text \<open>
  A pickup whose filter matches no row returns normally and leaves the store as it is;
  after one pickup has returned normally, no row with that id is left to match, so any
  later pickup of the same booking is such a call.
\<close>

lemma pickBooking_no_match:
  assumes "session e = Some u" "cleanerProfile_of e db = Some c" "store_error e = None"
    and "\<And>b. b \<in> set (bookings db) \<Longrightarrow> id_booking b = bookingId \<Longrightarrow>
            status b \<noteq> Pending \<or> is_deleted b"
  shows "pickBooking e db bookingId = (None, db)"
proof -
  have "update_where
          (\<lambda>b. id_booking b = bookingId \<and> status b = Pending \<and> \<not> is_deleted b)
          (\<lambda>b. b\<lparr>cleaner_id := Some (id_cleaner c), status := Picked,
                  picked_at := Some (now e)\<rparr>)
          (bookings db) = bookings db"
    by (rule update_where_no_match) (use assms(4) in blast)
  then show ?thesis
    using assms(1-3) by (simp add: pickBooking_def)
qed

lemma pickBooking_assigns:
  assumes "session e = Some u" "cleanerProfile_of e db = Some c" "store_error e = None"
    and "b \<in> set (bookings db)" "id_booking b = bookingId" "status b = Pending"
      "\<not> is_deleted b"
  shows "b\<lparr>cleaner_id := Some (id_cleaner c), status := Picked, picked_at := Some (now e)\<rparr>
           \<in> set (bookings (snd (pickBooking e db bookingId)))"
proof -
  have "b\<lparr>cleaner_id := Some (id_cleaner c), status := Picked, picked_at := Some (now e)\<rparr>
          \<in> set (update_where
                  (\<lambda>b. id_booking b = bookingId \<and> status b = Pending \<and> \<not> is_deleted b)
                  (\<lambda>b. b\<lparr>cleaner_id := Some (id_cleaner c), status := Picked,
                          picked_at := Some (now e)\<rparr>)
                  (bookings db))"
    using assms(4-7) by (intro update_where_mem) simp_all
  then show ?thesis
    using assms(1-3) by (simp add: pickBooking_def)
qed

lemma pickBooking_result:
  assumes "fst (pickBooking e db bookingId) = None"
  shows "\<exists>c. snd (pickBooking e db bookingId) =
           db\<lparr>bookings :=
                update_where
                  (\<lambda>b. id_booking b = bookingId \<and> status b = Pending \<and> \<not> is_deleted b)
                  (\<lambda>b. b\<lparr>cleaner_id := Some c, status := Picked, picked_at := Some (now e)\<rparr>)
                  (bookings db)\<rparr>"
proof (cases "cleanerProfile_of e db")
  case None
  with assms show ?thesis by (simp add: pickBooking_def split: option.splits)
next
  case (Some c)
  with assms have "snd (pickBooking e db bookingId) =
           db\<lparr>bookings :=
                update_where
                  (\<lambda>b. id_booking b = bookingId \<and> status b = Pending \<and> \<not> is_deleted b)
                  (\<lambda>b. b\<lparr>cleaner_id := Some (id_cleaner c), status := Picked,
                          picked_at := Some (now e)\<rparr>)
                  (bookings db)\<rparr>"
    by (simp add: pickBooking_def split: option.splits)
  then show ?thesis ..
qed

lemma pickBooking_leaves_none_pending:
  assumes "fst (pickBooking e db bookingId) = None"
    and "b \<in> set (bookings (snd (pickBooking e db bookingId)))" "id_booking b = bookingId"
  shows "status b \<noteq> Pending \<or> is_deleted b"
proof -
  from pickBooking_result [OF assms(1)] obtain c where
    "snd (pickBooking e db bookingId) =
       db\<lparr>bookings :=
            update_where
              (\<lambda>b. id_booking b = bookingId \<and> status b = Pending \<and> \<not> is_deleted b)
              (\<lambda>b. b\<lparr>cleaner_id := Some c, status := Picked, picked_at := Some (now e)\<rparr>)
              (bookings db)\<rparr>" ..
  with assms(2) obtain r0 where r0: "r0 \<in> set (bookings db)"
    "b = (if id_booking r0 = bookingId \<and> status r0 = Pending \<and> \<not> is_deleted r0
          then r0\<lparr>cleaner_id := Some c, status := Picked, picked_at := Some (now e)\<rparr> else r0)"
    by (simp add: in_set_update_where) blast
  show ?thesis
  proof (cases "id_booking r0 = bookingId \<and> status r0 = Pending \<and> \<not> is_deleted r0")
    case True
    with r0(2) show ?thesis by simp
  next
    case False
    with r0(2) have "b = r0" by (simp only: if_False)
    with False assms(3) show ?thesis by blast
  qed
qed

lemma pickBooking_cleaners: "cleaners (snd (pickBooking e db bookingId)) = cleaners db"
  by (simp add: pickBooking_def split: option.splits)

lemma pickBooking_twice:
  assumes "fst (pickBooking e1 db bookingId) = None"
    and "session e2 = Some u" "cleanerProfile_of e2 db = Some c" "store_error e2 = None"
  shows "pickBooking e2 (snd (pickBooking e1 db bookingId)) bookingId =
           (None, snd (pickBooking e1 db bookingId))"
proof (rule pickBooking_no_match [OF assms(2) _ assms(4)])
  show "cleanerProfile_of e2 (snd (pickBooking e1 db bookingId)) = Some c"
    using assms(3) by (simp add: cleanerProfile_of_def pickBooking_cleaners)
next
  fix b
  assume "b \<in> set (bookings (snd (pickBooking e1 db bookingId)))" "id_booking b = bookingId"
  with assms(1) show "status b \<noteq> Pending \<or> is_deleted b"
    by (rule pickBooking_leaves_none_pending)
qed

text \<open>
  Claim C1 at the race of cleaners \<open>c1\<close> and \<open>c2\<close> for the pending booking \<open>b1\<close>: the
  pickup of \<open>c1\<close> assigns the booking; the pickup of \<open>c2\<close> that follows matches no
  row, changes nothing and returns normally, where the claim has it receive an error.
\<close>

theorem pickBooking_lost_race_returns_normally:
  "bookings db_picked =
     [booking0\<lparr>cleaner_id := Some ''c1'', status := Picked, picked_at := Some 10\<rparr>] \<and>
   pickBooking (cleaner_env ''c2'' 11) db_picked ''b1'' = (None, db_picked)"
  by (simp add: booking0_def db0_def cleaner_env_def db_picked_def lifecycle_defs)

text \<open>Completing a paused job rewrites the status and \<^verbatim>\<open>completed_at\<close> only.\<close>

lemma completeJob_keeps_paused_at:
  assumes "store_error e = None" "b \<in> set (bookings db)" "id_booking b = bookingId"
    and "status b = Paused" "\<not> is_deleted b"
  shows "b\<lparr>status := Completed, completed_at := Some (now e)\<rparr>
           \<in> set (bookings (snd (completeJob e db bookingId)))"
proof -
  have "b\<lparr>status := Completed, completed_at := Some (now e)\<rparr>
          \<in> set (update_where
                  (\<lambda>b. id_booking b = bookingId \<and>
                        (status b = In_progress \<or> status b = Paused) \<and> \<not> is_deleted b)
                  (\<lambda>b. b\<lparr>status := Completed, completed_at := Some (now e)\<rparr>)
                  (bookings db))"
    using assms(2-5) by (intro update_where_mem) simp_all
  then show ?thesis
    using assms(1) by (simp add: completeJob_def)
qed

text \<open>
  Claim C3 on the run pick, start, pause, complete: the booking ends with the status
  \<^verbatim>\<open>completed\<close> and \<^verbatim>\<open>paused_at\<close> still set, so the biconditional of the claim does not
  hold in that reachable state.
\<close>

theorem completeJob_from_paused_keeps_paused_at:
  "bookings db_completed_from_paused =
     [booking0\<lparr>cleaner_id := Some ''c1'', status := Completed, picked_at := Some 10,
               started_at := Some 20, paused_at := Some 30, completed_at := Some 40\<rparr>] \<and>
   \<not> list_all paused_at_iff_paused (bookings db_completed_from_paused)"
  by (simp add: booking0_def db0_def cleaner_env_def db_picked_def db_completed_from_paused_def lifecycle_defs paused_at_iff_paused_def)

section \<open>Payment verification\<close>

text \<open>
  Claim C2. When \<^verbatim>\<open>payment_proof_url\<close> goes from null to non-null, the trigger returns
  the row with \<^verbatim>\<open>payment_collected_at\<close> set to the current time and the status
  \<^verbatim>\<open>payment_verified\<close>, and a \<^verbatim>\<open>cleaners\<close> table in which each row of the assigned
  cleaner has the service's rate (150 for \<^verbatim>\<open>Car Wash\<close>, otherwise 200) added to its
  balance and one entry \<open>{booking_id, amount, service, earned_at}\<close> appended to its
  history, every other row being as before. When \<^verbatim>\<open>payment_proof_url\<close> was non-null
  already, the row and the table come back unchanged.
\<close>

theorem verify_payment_and_update_earnings_effects:
  "(payment_proof_url OLD = None \<and> payment_proof_url NEW \<noteq> None \<longrightarrow>
      fst (verify_payment_and_update_earnings ts svc cls OLD NEW) =
        NEW\<lparr>payment_collected_at := Some ts, status := Payment_verified\<rparr> \<and>
      length (snd (verify_payment_and_update_earnings ts svc cls OLD NEW)) = length cls \<and>
      (\<forall>i<length cls.
         snd (verify_payment_and_update_earnings ts svc cls OLD NEW) ! i =
           (if Some (id_cleaner (cls ! i)) = cleaner_id NEW
            then (cls ! i)
                   \<lparr>earnings_balance :=
                      Some (num (earnings_balance (cls ! i)) +
                            (if svc (service_id NEW) = Some ''Car Wash'' then 150 else 200)),
                    earnings_history :=
                      Some ((case earnings_history (cls ! i) of None \<Rightarrow> [] | Some h \<Rightarrow> h) @
                            [\<lparr>booking_id = id_booking NEW,
                              amount_entry =
                                (if svc (service_id NEW) = Some ''Car Wash'' then 150 else 200),
                              service = svc (service_id NEW), earned_at = ts\<rparr>])\<rparr>
            else cls ! i))) \<and>
   (payment_proof_url OLD \<noteq> None \<longrightarrow>
      verify_payment_and_update_earnings ts svc cls OLD NEW = (NEW, cls))"
  by (simp add: verify_payment_and_update_earnings_def Let_def update_where_def)

text \<open>A first proof for the completed car wash of \<open>c1\<close> credits 150 to \<open>c1\<close> alone; a
  replacement of the proof changes nothing.\<close>

theorem verify_payment_and_update_earnings_effects_witness:
  "fst (verify_payment_and_update_earnings 50 (services db0) (cleaners db0) booking_completed
          (booking_completed\<lparr>payment_proof_url := Some ''proof.jpg'',
                             payment_collected_at := Some 49\<rparr>)) =
     booking_completed\<lparr>payment_proof_url := Some ''proof.jpg'',
                       payment_collected_at := Some 50, status := Payment_verified\<rparr> \<and>
   snd (verify_payment_and_update_earnings 50 (services db0) (cleaners db0) booking_completed
          (booking_completed\<lparr>payment_proof_url := Some ''proof.jpg'',
                             payment_collected_at := Some 49\<rparr>)) ! 0 =
     \<lparr>id_cleaner = ''c1'', earnings_balance = Some 150,
      earnings_history =
        Some [\<lparr>booking_id = ''b1'', amount_entry = 150, service = Some ''Car Wash'',
               earned_at = 50\<rparr>]\<rparr> \<and>
   snd (verify_payment_and_update_earnings 50 (services db0) (cleaners db0) booking_completed
          (booking_completed\<lparr>payment_proof_url := Some ''proof.jpg'',
                             payment_collected_at := Some 49\<rparr>)) ! 1 =
     \<lparr>id_cleaner = ''c2'', earnings_balance = None, earnings_history = None\<rparr> \<and>
   verify_payment_and_update_earnings 60 (services db0) (cleaners db0)
     (booking_completed\<lparr>payment_proof_url := Some ''proof.jpg''\<rparr>)
     (booking_completed\<lparr>payment_proof_url := Some ''other.jpg''\<rparr>) =
     (booking_completed\<lparr>payment_proof_url := Some ''other.jpg''\<rparr>, cleaners db0)"
proof -
  let ?OLD = booking_completed
  let ?NEW = "booking_completed\<lparr>payment_proof_url := Some ''proof.jpg'',
                               payment_collected_at := Some 49\<rparr>"
  let ?r = "verify_payment_and_update_earnings 50 (services db0) (cleaners db0) ?OLD ?NEW"
  have edge: "payment_proof_url ?OLD = None \<and> payment_proof_url ?NEW \<noteq> None"
    by (simp add: booking_completed_def booking0_def)
  have len: "length (cleaners db0) = 2"
    by (simp add: db0_def)
  from verify_payment_and_update_earnings_effects [of ?OLD ?NEW 50 "services db0" "cleaners db0"]
    edge
  have eff: "fst ?r = ?NEW\<lparr>payment_collected_at := Some 50, status := Payment_verified\<rparr>"
    "length (snd ?r) = 2" "snd ?r ! 0 = \<lparr>id_cleaner = ''c1'', earnings_balance = Some 150,
       earnings_history =
         Some [\<lparr>booking_id = ''b1'', amount_entry = 150, service = Some ''Car Wash'',
                earned_at = 50\<rparr>]\<rparr>"
    "snd ?r ! 1 = \<lparr>id_cleaner = ''c2'', earnings_balance = None, earnings_history = None\<rparr>"
    by (simp_all add: len) (simp_all add: db0_def booking_completed_def booking0_def num_def)
  have nonnull: "payment_proof_url (booking_completed\<lparr>payment_proof_url := Some ''proof.jpg''\<rparr>) \<noteq> None"
    by simp
  from verify_payment_and_update_earnings_effects
         [of "booking_completed\<lparr>payment_proof_url := Some ''proof.jpg''\<rparr>"
             "booking_completed\<lparr>payment_proof_url := Some ''other.jpg''\<rparr>"
             60 "services db0" "cleaners db0"] nonnull
  have same: "verify_payment_and_update_earnings 60 (services db0) (cleaners db0)
     (booking_completed\<lparr>payment_proof_url := Some ''proof.jpg''\<rparr>)
     (booking_completed\<lparr>payment_proof_url := Some ''other.jpg''\<rparr>) =
     (booking_completed\<lparr>payment_proof_url := Some ''other.jpg''\<rparr>, cleaners db0)"
    by blast
  from eff(1,3,4) same show ?thesis by simp
qed

text \<open>The rows the update of \<^verbatim>\<open>uploadPaymentProof\<close> stores, whatever their status.\<close>

lemma verify_payment_row:
  "fst (verify_payment_and_update_earnings ts svc cls OLD NEW) =
     (if payment_proof_url NEW \<noteq> None \<and> payment_proof_url OLD = None
      then NEW\<lparr>payment_collected_at := Some ts, status := Payment_verified\<rparr> else NEW)"
  by (simp add: verify_payment_and_update_earnings_def Let_def)

lemma update_payment_proof_rows:
  "fst (update_payment_proof e svc bookingId bs cls) =
     update_where (\<lambda>b. id_booking b = bookingId)
       (\<lambda>b. if payment_proof_url b = None
             then b\<lparr>payment_proof_url := Some (public_url e),
                    payment_collected_at := Some (current_timestamp e),
                    status := Payment_verified\<rparr>
             else b\<lparr>payment_proof_url := Some (public_url e),
                    payment_collected_at := Some (now e)\<rparr>)
       bs"
proof (induction bs arbitrary: cls)
  case Nil
  show ?case by (simp add: update_where_def)
next
  case (Cons b bs)
  have row: "fst (verify_payment_and_update_earnings (current_timestamp e) svc cls b
                (b\<lparr>payment_proof_url := Some (public_url e),
                   payment_collected_at := Some (now e)\<rparr>)) =
             (if payment_proof_url b = None
              then b\<lparr>payment_proof_url := Some (public_url e),
                     payment_collected_at := Some (current_timestamp e),
                     status := Payment_verified\<rparr>
              else b\<lparr>payment_proof_url := Some (public_url e),
                     payment_collected_at := Some (now e)\<rparr>)"
    by (simp add: verify_payment_row)
  show ?case
  proof (cases "id_booking b = bookingId")
    case True
    obtain b' cls' where v: "verify_payment_and_update_earnings (current_timestamp e) svc cls b
                (b\<lparr>payment_proof_url := Some (public_url e),
                   payment_collected_at := Some (now e)\<rparr>) = (b', cls')"
      by (cases "verify_payment_and_update_earnings (current_timestamp e) svc cls b
                (b\<lparr>payment_proof_url := Some (public_url e),
                   payment_collected_at := Some (now e)\<rparr>)")
    obtain bs' cls'' where r: "update_payment_proof e svc bookingId bs cls' = (bs', cls'')"
      by (cases "update_payment_proof e svc bookingId bs cls'")
    from row v have b': "b' = (if payment_proof_url b = None
              then b\<lparr>payment_proof_url := Some (public_url e),
                     payment_collected_at := Some (current_timestamp e),
                     status := Payment_verified\<rparr>
              else b\<lparr>payment_proof_url := Some (public_url e),
                     payment_collected_at := Some (now e)\<rparr>)" by simp
    from Cons.IH [of cls'] r have "bs' = update_where (\<lambda>b. id_booking b = bookingId)
       (\<lambda>b. if payment_proof_url b = None
             then b\<lparr>payment_proof_url := Some (public_url e),
                    payment_collected_at := Some (current_timestamp e),
                    status := Payment_verified\<rparr>
             else b\<lparr>payment_proof_url := Some (public_url e),
                    payment_collected_at := Some (now e)\<rparr>)
       bs" by simp
    with True v r b' show ?thesis by (simp add: update_where_def)
  next
    case False
    obtain bs' cls' where r: "update_payment_proof e svc bookingId bs cls = (bs', cls')"
      by (cases "update_payment_proof e svc bookingId bs cls")
    with Cons.IH [of cls] False show ?thesis by (simp add: update_where_def)
  qed
qed

text \<open>
  Claim C6 on a booking that is still \<^verbatim>\<open>pending\<close>: \<^verbatim>\<open>uploadPaymentProof\<close> sets both proof
  fields (and the trigger makes the booking \<^verbatim>\<open>payment_verified\<close>), and a second upload
  replaces both fields again, where the claim allows the first only from \<^verbatim>\<open>completed\<close>
  and the second never.
\<close>

theorem uploadPaymentProof_unguarded:
  "uploadPaymentProof (cleaner_env ''c2'' 50) db0 ''b1'' =
     (Inr ''proof.jpg'',
      db0\<lparr>bookings := [booking0\<lparr>status := Payment_verified, payment_collected_at := Some 50,
                                payment_proof_url := Some ''proof.jpg''\<rparr>]\<rparr>) \<and>
   bookings (snd (uploadPaymentProof ((cleaner_env ''c2'' 70)\<lparr>public_url := ''other.jpg''\<rparr>)
                    db_verified ''b1'')) =
     [booking0\<lparr>status := Payment_verified, payment_collected_at := Some 70,
               payment_proof_url := Some ''other.jpg''\<rparr>]"
  by (simp add: db_verified_def booking0_def db0_def cleaner_env_def uploadPaymentProof_def update_where_def num_def
      verify_payment_and_update_earnings_def)

section \<open>Earnings ledger\<close>

lemma sum_list_sort_key:
  "sum_list (map g (sort_key k xs)) = sum_list (map g xs)" for g :: "'a \<Rightarrow> real"
proof -
  have "sum_mset (image_mset g (mset (sort_key k xs))) = sum_mset (image_mset g (mset xs))"
    by simp
  then show ?thesis
    by (simp only: mset_map [symmetric] sum_mset_sum_list)
qed

lemma pendingCashout_sum:
  "pendingCashout bs = sum_list (map amount (filter (\<lambda>b. payment_collected_at b \<noteq> None) bs))"
  by (simp add: pendingCashout_def completedBookings_def foldl_add_sum_list)

lemma pendingCashout_sort_key: "pendingCashout (sort_key k bs) = pendingCashout bs"
  by (simp only: pendingCashout_sum filter_sort sum_list_sort_key)

lemma sum_list_filter_if:
  "sum_list (map g (filter Q xs)) = sum_list (map (\<lambda>x. if Q x then g x else 0) xs)"
  for g :: "'a \<Rightarrow> real"
  by (induction xs) simp_all

lemma sum_list_update_where:
  "sum_list (map g (update_where P f xs)) =
     sum_list (map g xs) + sum_list (map (\<lambda>x. g (f x) - g x) (filter P xs))"
  for g :: "'a \<Rightarrow> real"
  by (induction xs) (simp_all add: update_where_def)

lemma snd_update_payment_proof_Cons:
  "snd (update_payment_proof e svc bookingId (b # bs) cls) =
     (if id_booking b = bookingId
      then snd (update_payment_proof e svc bookingId bs
                  (snd (verify_payment_and_update_earnings (current_timestamp e) svc cls b
                          (b\<lparr>payment_proof_url := Some (public_url e),
                             payment_collected_at := Some (now e)\<rparr>))))
      else snd (update_payment_proof e svc bookingId bs cls))"
  by (simp split: prod.split)

lemma update_payment_proof_no_row:
  "filter (\<lambda>b. id_booking b = bookingId) bs = [] \<Longrightarrow>
   snd (update_payment_proof e svc bookingId bs cls) = cls"
proof (induction bs arbitrary: cls)
  case Nil
  show ?case by simp
next
  case (Cons b bs)
  from Cons.prems have "id_booking b \<noteq> bookingId"
    "filter (\<lambda>b. id_booking b = bookingId) bs = []"
    by (simp_all split: if_splits)
  with Cons.IH show ?case
    by (simp add: snd_update_payment_proof_Cons del: update_payment_proof.simps)
qed

lemma update_payment_proof_one_row:
  "filter (\<lambda>b. id_booking b = bookingId) bs = [b] \<Longrightarrow>
   snd (update_payment_proof e svc bookingId bs cls) =
     snd (verify_payment_and_update_earnings (current_timestamp e) svc cls b
            (b\<lparr>payment_proof_url := Some (public_url e),
               payment_collected_at := Some (now e)\<rparr>))"
proof (induction bs arbitrary: cls)
  case Nil
  then show ?case by simp
next
  case (Cons x bs)
  show ?case
  proof (cases "id_booking x = bookingId")
    case True
    with Cons.prems have "x = b" "filter (\<lambda>b. id_booking b = bookingId) bs = []"
      by simp_all
    with True show ?thesis
      by (simp add: snd_update_payment_proof_Cons update_payment_proof_no_row
          del: update_payment_proof.simps)
  next
    case False
    with Cons.prems have "filter (\<lambda>b. id_booking b = bookingId) bs = [b]" by simp
    with Cons.IH False show ?thesis
      by (simp add: snd_update_payment_proof_Cons del: update_payment_proof.simps)
  qed
qed


lemma filter_singleton_length:
  "length (filter P xs) = 1 \<longleftrightarrow> (\<exists>x. filter P xs = [x])"
  by (cases "filter P xs") auto

lemma uploadPaymentProof_one_row:
  assumes "session e = Some u" "upload_error e = None" "update_error e = None"
    and "filter (\<lambda>b. id_booking b = bookingId) (bookings db) = [b]"
  shows "uploadPaymentProof e db bookingId =
           (Inr (public_url e),
            db\<lparr>bookings :=
                 update_where (\<lambda>b. id_booking b = bookingId)
                   (\<lambda>b. if payment_proof_url b = None
                         then b\<lparr>payment_proof_url := Some (public_url e),
                                payment_collected_at := Some (current_timestamp e),
                                status := Payment_verified\<rparr>
                         else b\<lparr>payment_proof_url := Some (public_url e),
                                payment_collected_at := Some (now e)\<rparr>)
                   (bookings db),
               cleaners :=
                 snd (verify_payment_and_update_earnings (current_timestamp e) (services db)
                        (cleaners db) b
                        (b\<lparr>payment_proof_url := Some (public_url e),
                           payment_collected_at := Some (now e)\<rparr>))\<rparr>)"
proof -
  obtain bs' cls' where r:
    "update_payment_proof e (services db) bookingId (bookings db) (cleaners db) = (bs', cls')"
    by (cases "update_payment_proof e (services db) bookingId (bookings db) (cleaners db)")
  from r update_payment_proof_rows [of e "services db" bookingId "bookings db" "cleaners db"]
  have bs': "bs' = update_where (\<lambda>b. id_booking b = bookingId)
                   (\<lambda>b. if payment_proof_url b = None
                         then b\<lparr>payment_proof_url := Some (public_url e),
                                payment_collected_at := Some (current_timestamp e),
                                status := Payment_verified\<rparr>
                         else b\<lparr>payment_proof_url := Some (public_url e),
                                payment_collected_at := Some (now e)\<rparr>)
                   (bookings db)"
    by simp
  from r update_payment_proof_one_row [OF assms(4), of e "services db" "cleaners db"]
  have cls': "cls' = snd (verify_payment_and_update_earnings (current_timestamp e) (services db)
                        (cleaners db) b
                        (b\<lparr>payment_proof_url := Some (public_url e),
                           payment_collected_at := Some (now e)\<rparr>))"
    by simp
  show ?thesis
    unfolding uploadPaymentProof_def using assms r
    by (simp add: bs' cls')
qed


lemma cleanerProfile_of_cong:
  "cleaners db' = cleaners db \<Longrightarrow> cleanerProfile_of e db' = cleanerProfile_of e db"
  by (simp add: cleanerProfile_of_def)

lemma pendingCashout_fetch:
  assumes "session e = Some u" "cleanerProfile_of e db = Some c" "store_error e = None"
  shows "pendingCashout (fetchCleanerBookings e db) =
           sum_list (map (\<lambda>x. if cleaner_id x = Some (id_cleaner c) \<and> \<not> is_deleted x \<and>
                                  payment_collected_at x \<noteq> None
                               then amount x else 0) (bookings db))"
proof -
  have "fetchCleanerBookings e db =
          sort_key (\<lambda>b. - scheduled_at b)
            (filter (\<lambda>b. cleaner_id b = Some (id_cleaner c) \<and> \<not> is_deleted b) (bookings db))"
    using assms by (simp add: fetchCleanerBookings_def)
  then show ?thesis
    by (simp only: pendingCashout_sort_key)
       (simp add: pendingCashout_sum sum_list_filter_if [symmetric])
qed

lemma db_paid_eq:
  "db_paid =
     db0\<lparr>bookings :=
           [booking_completed\<lparr>payment_proof_url := Some ''proof.jpg'',
                              payment_collected_at := Some 50,
                              status := Payment_verified\<rparr>],
         cleaners :=
           [\<lparr>id_cleaner = ''c1'', earnings_balance = Some 150,
             earnings_history =
               Some [\<lparr>booking_id = ''b1'', amount_entry = 150, service = Some ''Car Wash'',
                      earned_at = 50\<rparr>]\<rparr>,
            \<lparr>id_cleaner = ''c2'', earnings_balance = None, earnings_history = None\<rparr>]\<rparr>"
  by (simp add: db_paid_def db_completed_def booking0_def db0_def cleaner_env_def booking_completed_def uploadPaymentProof_def
      verify_payment_and_update_earnings_def update_where_def num_def)

text \<open>
  Claim C5, as amended. \<^verbatim>\<open>pendingCashout\<close> is the sum of \<^verbatim>\<open>amount\<close> over the cleaner's
  not deleted bookings with non-null \<^verbatim>\<open>payment_collected_at\<close>, and it is not tied to
  \<^verbatim>\<open>earnings_balance\<close>. The first proof upload for a booking of the cleaner raises
  \<^verbatim>\<open>pendingCashout\<close> by the booking's amount while the trigger raises the balance by the
  service's fixed rate (150 or 200); an accepted withdrawal lowers the balance by its
  amount and leaves \<^verbatim>\<open>pendingCashout\<close> as it was.
\<close>

theorem pendingCashout_and_earnings_balance_effects:
  assumes "session e = Some u" "cleanerProfile_of e db = Some c" "store_error e = None"
    and "upload_error e = None" "update_error e = None"
  shows "pendingCashout (fetchCleanerBookings e db) =
           (\<Sum>x\<leftarrow>bookings db.
              if cleaner_id x = Some (id_cleaner c) \<and> \<not> is_deleted x \<and>
                 payment_collected_at x \<noteq> None
              then amount x else 0) \<and>
         (filter (\<lambda>x. id_booking x = bookingId) (bookings db) = [b] \<and>
          cleaner_id b = Some (id_cleaner c) \<and> \<not> is_deleted b \<and>
          payment_proof_url b = None \<and> payment_collected_at b = None \<longrightarrow>
            pendingCashout (fetchCleanerBookings e (snd (uploadPaymentProof e db bookingId))) =
              pendingCashout (fetchCleanerBookings e db) + amount b \<and>
            map_option earnings_balance
              (cleanerProfile_of e (snd (uploadPaymentProof e db bookingId))) =
              Some (Some (num (earnings_balance c) +
                          (if services db (service_id b) = Some ''Car Wash''
                           then 150 else 200)))) \<and>
         (\<not> num (earnings_balance c) < amt \<longrightarrow>
            pendingCashout (fetchCleanerBookings e (snd (requestWithdrawal e db amt))) =
              pendingCashout (fetchCleanerBookings e db) \<and>
            map_option earnings_balance
              (cleanerProfile_of e (snd (requestWithdrawal e db amt))) =
              Some (Some (num (earnings_balance c) - amt)))"
proof (intro conjI impI)
  show "pendingCashout (fetchCleanerBookings e db) =
           (\<Sum>x\<leftarrow>bookings db.
              if cleaner_id x = Some (id_cleaner c) \<and> \<not> is_deleted x \<and>
                 payment_collected_at x \<noteq> None
              then amount x else 0)"
    using assms(1-3) by (rule pendingCashout_fetch)
next
  assume h: "filter (\<lambda>x. id_booking x = bookingId) (bookings db) = [b] \<and>
          cleaner_id b = Some (id_cleaner c) \<and> \<not> is_deleted b \<and>
          payment_proof_url b = None \<and> payment_collected_at b = None"
  let ?rate = "if services db (service_id b) = Some ''Car Wash'' then 150 else 200 :: real"
  let ?stored = "\<lambda>b. if payment_proof_url b = None
                         then b\<lparr>payment_proof_url := Some (public_url e),
                                payment_collected_at := Some (current_timestamp e),
                                status := Payment_verified\<rparr>
                         else b\<lparr>payment_proof_url := Some (public_url e),
                                payment_collected_at := Some (now e)\<rparr>"
  let ?credit = "\<lambda>c. c\<lparr>earnings_balance := Some (num (earnings_balance c) + ?rate),
                 earnings_history :=
                   Some ((case earnings_history c of None \<Rightarrow> [] | Some h \<Rightarrow> h) @
                         [\<lparr>booking_id = id_booking b, amount_entry = ?rate,
                           service = services db (service_id b),
                           earned_at = current_timestamp e\<rparr>])\<rparr>"
  let ?db' = "snd (uploadPaymentProof e db bookingId)"
  let ?g = "\<lambda>x. if cleaner_id x = Some (id_cleaner c) \<and> \<not> is_deleted x \<and>
                    payment_collected_at x \<noteq> None then amount x else 0"
  from h have one: "filter (\<lambda>x. id_booking x = bookingId) (bookings db) = [b]" by simp
  have trig: "snd (verify_payment_and_update_earnings (current_timestamp e) (services db)
                        (cleaners db) b
                        (b\<lparr>payment_proof_url := Some (public_url e),
                           payment_collected_at := Some (now e)\<rparr>)) =
              update_where (\<lambda>c'. Some (id_cleaner c') = cleaner_id b) ?credit (cleaners db)"
    using h by (simp add: verify_payment_and_update_earnings_def Let_def)
  have bookings': "bookings ?db' =
      update_where (\<lambda>b. id_booking b = bookingId) ?stored (bookings db)"
    and cleaners': "cleaners ?db' =
      update_where (\<lambda>c'. Some (id_cleaner c') = cleaner_id b) ?credit (cleaners db)"
    using uploadPaymentProof_one_row [OF assms(1,4,5) one] trig by simp_all
  have "cleanerProfile_of e ?db' =
          cleanerProfile_of e
            (db\<lparr>cleaners := update_where (\<lambda>c'. Some (id_cleaner c') = cleaner_id b) ?credit
                                (cleaners db)\<rparr>)"
    by (rule cleanerProfile_of_cong) (simp add: cleaners')
  also have "\<dots> = Some (if Some (id_cleaner c) = cleaner_id b then ?credit c else c)"
    by (rule cleanerProfile_of_update [OF assms(2)]) simp
  finally have prof': "cleanerProfile_of e ?db' = Some (?credit c)"
    using h by simp
  then show "map_option earnings_balance (cleanerProfile_of e ?db') =
               Some (Some (num (earnings_balance c) + ?rate))"
    by simp
  have "pendingCashout (fetchCleanerBookings e ?db') = sum_list (map ?g (bookings ?db'))"
    using pendingCashout_fetch [OF assms(1) prof' assms(3)] by simp
  also have "\<dots> = sum_list (map ?g (bookings db)) +
                   sum_list (map (\<lambda>x. ?g (?stored x) - ?g x)
                               (filter (\<lambda>x. id_booking x = bookingId) (bookings db)))"
    unfolding bookings' by (rule sum_list_update_where)
  also have "\<dots> = sum_list (map ?g (bookings db)) + amount b"
    unfolding one using h by simp
  also have "sum_list (map ?g (bookings db)) = pendingCashout (fetchCleanerBookings e db)"
    using pendingCashout_fetch [OF assms(1-3)] by simp
  finally show "pendingCashout (fetchCleanerBookings e ?db') =
                  pendingCashout (fetchCleanerBookings e db) + amount b" .
next
  assume ok: "\<not> num (earnings_balance c) < amt"
  let ?db' = "snd (requestWithdrawal e db amt)"
  let ?f = "\<lambda>r. r\<lparr>earnings_balance := Some (num (earnings_balance c) - amt)\<rparr>"
  have res: "?db' =
      db\<lparr>earnings_withdrawals :=
           earnings_withdrawals db @
           [\<lparr>cleaner_id_withdrawal = id_cleaner c, amount_withdrawal = amt\<rparr>],
         cleaners := update_where (\<lambda>r. id_cleaner r = id_cleaner c) ?f (cleaners db)\<rparr>"
    using assms ok by (simp add: requestWithdrawal_def Let_def)
  have "cleanerProfile_of e ?db' =
          cleanerProfile_of e
            (db\<lparr>cleaners := update_where (\<lambda>r. id_cleaner r = id_cleaner c) ?f (cleaners db)\<rparr>)"
    by (rule cleanerProfile_of_cong) (simp add: res)
  also have "\<dots> = Some (if id_cleaner c = id_cleaner c then ?f c else c)"
    by (rule cleanerProfile_of_update [OF assms(2)]) simp
  finally have prof': "cleanerProfile_of e ?db' = Some (?f c)" by simp
  then show "map_option earnings_balance (cleanerProfile_of e ?db') =
               Some (Some (num (earnings_balance c) - amt))"
    by simp
  have "bookings ?db' = bookings db" by (simp add: res)
  with pendingCashout_fetch [OF assms(1) prof' assms(3)] pendingCashout_fetch [OF assms(1-3)]
  show "pendingCashout (fetchCleanerBookings e ?db') = pendingCashout (fetchCleanerBookings e db)"
    by simp
qed

text \<open>The car wash of 500: the upload adds 500 to \<^verbatim>\<open>pendingCashout\<close> and 150 to the
  balance; the withdrawal of 100 that follows leaves 500 and 50.\<close>

theorem pendingCashout_and_earnings_balance_effects_witness:
  "pendingCashout (fetchCleanerBookings (cleaner_env ''c1'' 50) db_paid) =
     pendingCashout (fetchCleanerBookings (cleaner_env ''c1'' 50) db_completed) + 500 \<and>
   map_option earnings_balance (cleanerProfile_of (cleaner_env ''c1'' 50) db_paid) =
     Some (Some 150) \<and>
   pendingCashout
     (fetchCleanerBookings (cleaner_env ''c1'' 50)
        (snd (requestWithdrawal (cleaner_env ''c1'' 50) db_paid 100))) =
     pendingCashout (fetchCleanerBookings (cleaner_env ''c1'' 50) db_paid) \<and>
   map_option earnings_balance
     (cleanerProfile_of (cleaner_env ''c1'' 50)
        (snd (requestWithdrawal (cleaner_env ''c1'' 50) db_paid 100))) = Some (Some 50)"
proof -
  let ?e = "cleaner_env ''c1'' 50"
  let ?c0 = "\<lparr>id_cleaner = ''c1'', earnings_balance = None, earnings_history = None\<rparr>"
  let ?c1 = "\<lparr>id_cleaner = ''c1'', earnings_balance = Some 150,
             earnings_history =
               Some [\<lparr>booking_id = ''b1'', amount_entry = 150, service = Some ''Car Wash'',
                      earned_at = 50\<rparr>]\<rparr>"
  have env: "session ?e = Some ''c1''" "store_error ?e = None" "upload_error ?e = None"
    "update_error ?e = None"
    by (simp_all add: cleaner_env_def)
  have p0: "cleanerProfile_of ?e db_completed = Some ?c0"
    by (simp add: cleanerProfile_of_def db_completed_def booking0_def db0_def cleaner_env_def booking_completed_def)
  have p1: "cleanerProfile_of ?e db_paid = Some ?c1"
    by (simp add: cleanerProfile_of_def db_paid_eq booking0_def db0_def cleaner_env_def booking_completed_def)
  have row: "filter (\<lambda>x. id_booking x = ''b1'') (bookings db_completed) = [booking_completed] \<and>
          cleaner_id booking_completed = Some (id_cleaner ?c0) \<and>
          \<not> is_deleted booking_completed \<and>
          payment_proof_url booking_completed = None \<and>
          payment_collected_at booking_completed = None"
    by (simp add: db_completed_def booking0_def db0_def cleaner_env_def booking_completed_def)
  have vals: "amount booking_completed = 500"
    "services db_completed (service_id booking_completed) = Some ''Car Wash''"
    by (simp_all add: db_completed_def booking0_def db0_def cleaner_env_def booking_completed_def)
  have ok: "\<not> num (earnings_balance ?c1) < (100::real)"
    by (simp add: num_def)
  from pendingCashout_and_earnings_balance_effects
         [OF env(1) p0 env(2,3,4), of "''b1''" booking_completed 0] row
  have a: "pendingCashout (fetchCleanerBookings ?e db_paid) =
             pendingCashout (fetchCleanerBookings ?e db_completed) + 500"
    "map_option earnings_balance (cleanerProfile_of ?e db_paid) = Some (Some 150)"
    unfolding db_paid_def [symmetric] vals by (simp_all add: num_def)
  from pendingCashout_and_earnings_balance_effects
         [OF env(1) p1 env(2,3,4), of "''b1''" booking_completed 100] ok
  have b: "pendingCashout (fetchCleanerBookings ?e (snd (requestWithdrawal ?e db_paid 100))) =
             pendingCashout (fetchCleanerBookings ?e db_paid)"
    "map_option earnings_balance
       (cleanerProfile_of ?e (snd (requestWithdrawal ?e db_paid 100))) = Some (Some 50)"
    by (simp_all add: num_def)
  from a b show ?thesis by simp
qed

text \<open>Claim C5 as stated fails: after that upload alone, \<^verbatim>\<open>pendingCashout\<close> is 500 and
  \<^verbatim>\<open>earnings_balance\<close> is 150.\<close>

theorem pendingCashout_earnings_balance_counterexample:
  "pendingCashout (fetchCleanerBookings (cleaner_env ''c1'' 60) db_paid) = 500 \<and>
   map_option earnings_balance (cleanerProfile_of (cleaner_env ''c1'' 60) db_paid) =
     Some (Some 150)"
  by (simp add: db_paid_eq pendingCashout_def completedBookings_def fetchCleanerBookings_def
      cleanerProfile_of_def booking0_def db0_def cleaner_env_def booking_completed_def)

section \<open>Stores reached by the operations\<close>

text \<open>
  Every operation keeps \<open>booking_consistent\<close> true of all bookings, so it holds in every
  store reached from one in which it holds, such as a store of freshly created bookings.
  It gives one direction of the \<^verbatim>\<open>paused_at\<close> invariant in all those stores, and the
  condition under which the order lists partition the fetched bookings.
\<close>

lemma list_all_update_where:
  assumes "list_all Q rows" "\<And>r. Q r \<Longrightarrow> P r \<Longrightarrow> Q (f r)"
  shows "list_all Q (update_where P f rows)"
  using assms by (induction rows) (simp_all add: update_where_def)

lemma pick_row_consistent:
  "booking_consistent r \<Longrightarrow> status r = Pending \<Longrightarrow>
   booking_consistent (r\<lparr>cleaner_id := c, status := Picked, picked_at := t\<rparr>)"
  by (simp add: booking_consistent_def)

lemma start_row_consistent:
  "booking_consistent r \<Longrightarrow> status r = Picked \<Longrightarrow>
   booking_consistent (r\<lparr>status := In_progress, started_at := t\<rparr>)"
  by (simp add: booking_consistent_def)

lemma pause_row_consistent:
  "booking_consistent r \<Longrightarrow> status r = In_progress \<Longrightarrow>
   booking_consistent (r\<lparr>status := Paused, paused_at := Some t\<rparr>)"
  by (simp add: booking_consistent_def)

lemma resume_row_consistent:
  "booking_consistent r \<Longrightarrow> status r = Paused \<Longrightarrow>
   booking_consistent (r\<lparr>status := In_progress, paused_at := None, total_pause_duration := d\<rparr>)"
  by (simp add: booking_consistent_def)

lemma complete_row_consistent:
  "booking_consistent r \<Longrightarrow> status r = In_progress \<or> status r = Paused \<Longrightarrow>
   booking_consistent (r\<lparr>status := Completed, completed_at := t\<rparr>)"
  by (auto simp: booking_consistent_def)

lemma proof_row_consistent:
  "booking_consistent r \<Longrightarrow>
   booking_consistent
     (if payment_proof_url r = None
      then r\<lparr>payment_proof_url := Some url, payment_collected_at := Some ts,
             status := Payment_verified\<rparr>
      else r\<lparr>payment_proof_url := Some url, payment_collected_at := Some t\<rparr>)"
  by (simp add: booking_consistent_def)

lemma pickBooking_consistent:
  assumes "list_all booking_consistent (bookings db)"
  shows "list_all booking_consistent (bookings (snd (pickBooking e db bookingId)))"
proof (cases "fst (pickBooking e db bookingId)")
  case None
  from pickBooking_result [OF None] obtain c where r:
    "snd (pickBooking e db bookingId) =
       db\<lparr>bookings :=
            update_where
              (\<lambda>b. id_booking b = bookingId \<and> status b = Pending \<and> \<not> is_deleted b)
              (\<lambda>b. b\<lparr>cleaner_id := Some c, status := Picked, picked_at := Some (now e)\<rparr>)
              (bookings db)\<rparr>" ..
  have "list_all booking_consistent
          (update_where
              (\<lambda>b. id_booking b = bookingId \<and> status b = Pending \<and> \<not> is_deleted b)
              (\<lambda>b. b\<lparr>cleaner_id := Some c, status := Picked, picked_at := Some (now e)\<rparr>)
              (bookings db))"
    using assms by (rule list_all_update_where) (simp add: pick_row_consistent)
  with r show ?thesis by simp
next
  case (Some err)
  then have "snd (pickBooking e db bookingId) = db"
    by (simp add: pickBooking_def split: option.splits)
  with assms show ?thesis by simp
qed

lemma startJob_consistent:
  assumes "list_all booking_consistent (bookings db)"
  shows "list_all booking_consistent (bookings (snd (startJob e db bookingId)))"
proof -
  have "list_all booking_consistent
          (update_where
             (\<lambda>b. id_booking b = bookingId \<and> status b = Picked \<and> \<not> is_deleted b)
             (\<lambda>b. b\<lparr>status := In_progress, started_at := Some (now e)\<rparr>)
             (bookings db))"
    using assms by (rule list_all_update_where) (simp add: start_row_consistent)
  with assms show ?thesis
    by (cases "store_error e") (simp_all add: startJob_def)
qed

lemma pauseJob_consistent:
  assumes "list_all booking_consistent (bookings db)"
  shows "list_all booking_consistent (bookings (snd (pauseJob e db bookingId)))"
proof -
  have "list_all booking_consistent
          (update_where
             (\<lambda>b. id_booking b = bookingId \<and> status b = In_progress \<and> \<not> is_deleted b)
             (\<lambda>b. b\<lparr>status := Paused, paused_at := Some (now e)\<rparr>)
             (bookings db))"
    using assms by (rule list_all_update_where) (simp add: pause_row_consistent)
  with assms show ?thesis
    by (cases "store_error e") (simp_all add: pauseJob_def)
qed

lemma completeJob_consistent:
  assumes "list_all booking_consistent (bookings db)"
  shows "list_all booking_consistent (bookings (snd (completeJob e db bookingId)))"
proof -
  have "list_all booking_consistent
          (update_where
             (\<lambda>b. id_booking b = bookingId \<and> (status b = In_progress \<or> status b = Paused) \<and>
                   \<not> is_deleted b)
             (\<lambda>b. b\<lparr>status := Completed, completed_at := Some (now e)\<rparr>)
             (bookings db))"
    using assms by (rule list_all_update_where) (simp add: complete_row_consistent)
  with assms show ?thesis
    by (cases "store_error e") (simp_all add: completeJob_def)
qed

lemma resumeJob_cases:
  "snd (resumeJob e db bookingId) = db \<or>
   (\<exists>d. snd (resumeJob e db bookingId) =
      db\<lparr>bookings :=
           update_where
             (\<lambda>b. id_booking b = bookingId \<and> status b = Paused \<and> \<not> is_deleted b)
             (\<lambda>b. b\<lparr>status := In_progress, paused_at := None, total_pause_duration := Some d\<rparr>)
             (bookings db)\<rparr>)"
proof (cases "single (filter (\<lambda>b. id_booking b = bookingId) (bookings db))")
  case None
  then show ?thesis by (simp add: resumeJob_def)
next
  case (Some booking)
  show ?thesis
  proof (cases "paused_at booking")
    case None
    with Some show ?thesis by (simp add: resumeJob_def)
  next
    case p: (Some p)
    show ?thesis
    proof (cases "store_error e")
      case None
      with Some p have "snd (resumeJob e db bookingId) =
        db\<lparr>bookings :=
             update_where
               (\<lambda>b. id_booking b = bookingId \<and> status b = Paused \<and> \<not> is_deleted b)
               (\<lambda>b. b\<lparr>status := In_progress, paused_at := None,
                       total_pause_duration :=
                         Some (num (total_pause_duration booking) +
                               (now e - p) div (1000 * 60))\<rparr>)
               (bookings db)\<rparr>"
        by (simp add: resumeJob_def Let_def)
      then show ?thesis by blast
    next
      case (Some err)
      with \<open>single (filter (\<lambda>b. id_booking b = bookingId) (bookings db)) = Some booking\<close> p
      show ?thesis by (simp add: resumeJob_def Let_def)
    qed
  qed
qed

lemma resumeJob_consistent:
  assumes "list_all booking_consistent (bookings db)"
  shows "list_all booking_consistent (bookings (snd (resumeJob e db bookingId)))"
proof -
  have "list_all booking_consistent
          (update_where
             (\<lambda>b. id_booking b = bookingId \<and> status b = Paused \<and> \<not> is_deleted b)
             (\<lambda>b. b\<lparr>status := In_progress, paused_at := None, total_pause_duration := Some d\<rparr>)
             (bookings db))" for d
    using assms by (rule list_all_update_where) (simp add: resume_row_consistent)
  with resumeJob_cases [of e db bookingId] assms show ?thesis
    by (elim disjE exE) simp_all
qed

lemma uploadPaymentProof_bookings:
  "bookings (snd (uploadPaymentProof e db bookingId)) = bookings db \<or>
   bookings (snd (uploadPaymentProof e db bookingId)) =
     update_where (\<lambda>b. id_booking b = bookingId)
       (\<lambda>b. if payment_proof_url b = None
             then b\<lparr>payment_proof_url := Some (public_url e),
                    payment_collected_at := Some (current_timestamp e),
                    status := Payment_verified\<rparr>
             else b\<lparr>payment_proof_url := Some (public_url e),
                    payment_collected_at := Some (now e)\<rparr>)
       (bookings db)"
proof -
  obtain bs' cls' where r:
    "update_payment_proof e (services db) bookingId (bookings db) (cleaners db) = (bs', cls')"
    by (cases "update_payment_proof e (services db) bookingId (bookings db) (cleaners db)")
  with update_payment_proof_rows [of e "services db" bookingId "bookings db" "cleaners db"]
  have "bs' = update_where (\<lambda>b. id_booking b = bookingId)
       (\<lambda>b. if payment_proof_url b = None
             then b\<lparr>payment_proof_url := Some (public_url e),
                    payment_collected_at := Some (current_timestamp e),
                    status := Payment_verified\<rparr>
             else b\<lparr>payment_proof_url := Some (public_url e),
                    payment_collected_at := Some (now e)\<rparr>)
       (bookings db)"
    by simp
  with r show ?thesis
    by (simp add: uploadPaymentProof_def split: option.splits)
qed

lemma uploadPaymentProof_consistent:
  assumes "list_all booking_consistent (bookings db)"
  shows "list_all booking_consistent (bookings (snd (uploadPaymentProof e db bookingId)))"
proof -
  have "list_all booking_consistent
          (update_where (\<lambda>b. id_booking b = bookingId)
             (\<lambda>b. if payment_proof_url b = None
                   then b\<lparr>payment_proof_url := Some (public_url e),
                          payment_collected_at := Some (current_timestamp e),
                          status := Payment_verified\<rparr>
                   else b\<lparr>payment_proof_url := Some (public_url e),
                          payment_collected_at := Some (now e)\<rparr>)
             (bookings db))"
    using assms by (rule list_all_update_where) (rule proof_row_consistent)
  with uploadPaymentProof_bookings [of e db bookingId] assms show ?thesis
    by (elim disjE) simp_all
qed

lemma requestWithdrawal_bookings:
  "bookings (snd (requestWithdrawal e db amt)) = bookings db"
  by (simp add: requestWithdrawal_def Let_def split: option.splits)

lemma step_consistent:
  "list_all booking_consistent (bookings db) \<Longrightarrow>
   list_all booking_consistent (bookings (step e opn db))"
  by (cases opn)
     (simp_all add: pickBooking_consistent startJob_consistent pauseJob_consistent
        resumeJob_consistent completeJob_consistent uploadPaymentProof_consistent
        requestWithdrawal_bookings)

lemma run_consistent:
  "list_all booking_consistent (bookings db) \<Longrightarrow>
   list_all booking_consistent (bookings (run ops db))"
  by (induction ops db rule: run.induct) (simp_all add: step_consistent)

lemma loadOrders_partition_after_run:
  assumes "list_all booking_consistent (bookings db)"
    and "b \<in> set (fetchAvailableBookings e (run ops db)) \<union>
              set (fetchCleanerBookings e (run ops db))"
  shows "(b \<in> set (current (loadOrders e (run ops db)))) \<noteq>
         (b \<in> set (history (loadOrders e (run ops db))))"
proof -
  from assms(2) have "b \<in> set (bookings (run ops db))"
    using fetchAvailableBookings_pending fetchCleanerBookings_subset by blast
  with run_consistent [OF assms(1), of ops] have "booking_consistent b"
    by (simp add: list_all_iff)
  then have "(payment_collected_at b \<noteq> None) = (status b = Payment_verified)"
    by (simp add: booking_consistent_def)
  then show ?thesis by (intro fetched_in_exactly_one [OF assms(2)])
qed

lemma pending_unpaid_consistent:
  "status b = Pending \<Longrightarrow> payment_collected_at b = None \<Longrightarrow> payment_proof_url b = None \<Longrightarrow>
   booking_consistent b"
  by (simp add: booking_consistent_def)

text \<open>A row inserted as \<^verbatim>\<open>createBooking\<close> inserts it, pending and with no payment recorded,
  keeps the store consistent, so bookings created between the operations change nothing.\<close>

lemma insert_pending_consistent:
  assumes "list_all booking_consistent (bookings db)"
    and "status b = Pending" "payment_collected_at b = None" "payment_proof_url b = None"
  shows "list_all booking_consistent (bookings (db\<lparr>bookings := bookings db @ [b]\<rparr>))"
  using assms by (simp add: pending_unpaid_consistent)

text \<open>
  Claim C4. Start from any store whose bookings are all pending with no payment
  recorded, as \<^verbatim>\<open>createBooking\<close> inserts them, and let any operations of any callers run
  in any order. In the store reached, for every cleaner, each booking that \<^verbatim>\<open>loadOrders\<close>
  fetches (the pending pool and the cleaner's own bookings) is in exactly one of the
  current list and the history list: never in both and never in neither.
\<close>

theorem loadOrders_partition_reached:
  assumes "\<forall>b\<in>set (bookings db).
             status b = Pending \<and> payment_collected_at b = None \<and> payment_proof_url b = None"
  shows "\<forall>b\<in>set (fetchAvailableBookings e (run ops db)) \<union>
              set (fetchCleanerBookings e (run ops db)).
           (b \<in> set (current (loadOrders e (run ops db)))) \<noteq>
           (b \<in> set (history (loadOrders e (run ops db))))"
proof
  fix b
  assume b: "b \<in> set (fetchAvailableBookings e (run ops db)) \<union>
                  set (fetchCleanerBookings e (run ops db))"
  from assms have "list_all booking_consistent (bookings db)"
    by (simp add: list_all_iff pending_unpaid_consistent)
  then show "(b \<in> set (current (loadOrders e (run ops db)))) \<noteq>
             (b \<in> set (history (loadOrders e (run ops db))))"
    using b by (rule loadOrders_partition_after_run)
qed

lemma db_one_paid_bookings:
  "bookings db_one_paid =
     [booking0\<lparr>cleaner_id := Some ''c1'', status := Payment_verified, picked_at := Some 10,
               started_at := Some 20, completed_at := Some 40,
               payment_collected_at := Some 50, payment_proof_url := Some ''proof.jpg''\<rparr>,
      booking0\<lparr>id_booking := ''b2''\<rparr>]"
  by (simp add: db_one_paid_def db_two_pending_def booking0_def db0_def cleaner_env_def
      lifecycle_defs uploadPaymentProof_def verify_payment_and_update_earnings_def)

text \<open>After \<open>c1\<close> has taken the first of two pending bookings to its proof of payment,
  \<open>c1\<close> sees the paid one in the history only and the other one in the current list
  only.\<close>

theorem loadOrders_partition_reached_witness:
  "hd (bookings db_one_paid) \<in> set (history (loadOrders (cleaner_env ''c1'' 60) db_one_paid)) \<and>
   hd (bookings db_one_paid) \<notin> set (current (loadOrders (cleaner_env ''c1'' 60) db_one_paid)) \<and>
   booking0\<lparr>id_booking := ''b2''\<rparr>
     \<in> set (current (loadOrders (cleaner_env ''c1'' 60) db_one_paid)) \<and>
   booking0\<lparr>id_booking := ''b2''\<rparr>
     \<notin> set (history (loadOrders (cleaner_env ''c1'' 60) db_one_paid))"
proof -
  let ?e = "cleaner_env ''c1'' 60"
  let ?paid = "hd (bookings db_one_paid)"
  let ?other = "booking0\<lparr>id_booking := ''b2''\<rparr>"
  have start: "\<forall>b\<in>set (bookings db_two_pending).
                 status b = Pending \<and> payment_collected_at b = None \<and>
                 payment_proof_url b = None"
    by (simp add: db_two_pending_def booking0_def)
  have cleaners: "cleaners db_one_paid =
      [\<lparr>id_cleaner = ''c1'', earnings_balance = Some 150,
        earnings_history =
          Some [\<lparr>booking_id = ''b1'', amount_entry = 150, service = Some ''Car Wash'',
                 earned_at = 50\<rparr>]\<rparr>,
       \<lparr>id_cleaner = ''c2'', earnings_balance = None, earnings_history = None\<rparr>]"
    by (simp add: db_one_paid_def db_two_pending_def booking0_def db0_def cleaner_env_def
        lifecycle_defs uploadPaymentProof_def verify_payment_and_update_earnings_def)
  have fetched: "?paid \<in> set (fetchAvailableBookings ?e db_one_paid) \<union>
                         set (fetchCleanerBookings ?e db_one_paid)"
    "?other \<in> set (fetchAvailableBookings ?e db_one_paid) \<union>
              set (fetchCleanerBookings ?e db_one_paid)"
    by (simp_all add: fetchAvailableBookings_def fetchCleanerBookings_def cleanerProfile_of_def
        cleaners db_one_paid_bookings booking0_def cleaner_env_def)
  have hist: "?paid \<in> set (history (loadOrders ?e db_one_paid))"
    by (simp add: loadOrders_def Let_def historyOrders_def fetchCleanerBookings_def
        cleanerProfile_of_def cleaners db_one_paid_bookings booking0_def cleaner_env_def)
  have cur: "?other \<in> set (current (loadOrders ?e db_one_paid))"
    by (simp add: loadOrders_def Let_def in_currentOrders fetchAvailableBookings_def
        db_one_paid_bookings booking0_def cleaner_env_def)
  note part = loadOrders_partition_reached [OF start, of ?e
      "[(cleaner_env ''c1'' 10, PickBooking ''b1''),
        (cleaner_env ''c1'' 20, StartJob ''b1''),
        (cleaner_env ''c1'' 40, CompleteJob ''b1''),
        (cleaner_env ''c1'' 50, UploadPaymentProof ''b1'')]", folded db_one_paid_def]
  from part [THEN bspec, OF fetched(1)] part [THEN bspec, OF fetched(2)] hist cur
  show ?thesis by blast
qed

lemma paused_has_paused_at_after_run:
  assumes "list_all booking_consistent (bookings db)"
    and "b \<in> set (bookings (run ops db))" "status b = Paused"
  shows "paused_at b \<noteq> None"
proof -
  from run_consistent [OF assms(1), of ops] assms(2) have "booking_consistent b"
    by (simp add: list_all_iff)
  with assms(3) show ?thesis by (simp add: booking_consistent_def)
qed

end
